theory Spec2Isabelle
  imports Main "HOL-Library.Sublist"
begin

section \<open>Python strings\<close>

text \<open>
  A Python \<open>str\<close> is a sequence of Unicode code points and \<open>len\<close> counts code points,
  so a string is modelled as a list of code-point numbers. ASCII fragments are written
  with \<open>asc\<close>; everything else is written as hexadecimal code points.
\<close>

type_synonym ustring = "nat list"

definition asc :: "string \<Rightarrow> ustring" where
  "asc s = map of_char s"

text \<open>The two characters the chunking loop searches for: U+FF0E (fullwidth full stop,
  the sentence-ending delimiter of the source) and U+000A (line feed).\<close>

definition FULLSTOP :: nat where
  "FULLSTOP = 0xFF0E"

definition NEWLINE :: nat where
  "NEWLINE = 0x0A"

text \<open>\<open>text[i:j]\<close> for \<open>0 \<le> i\<close>, \<open>0 \<le> j\<close>: Python clamps both ends to the length.\<close>

definition slice :: "'a list \<Rightarrow> nat \<Rightarrow> nat \<Rightarrow> 'a list" where
  "slice xs i j = take (j - i) (drop i xs)"

text \<open>\<open>text.rfind(c, start, stop)\<close> for a one-character needle: the highest index
  \<open>i\<close> with \<open>start \<le> i < min stop (len text)\<close> and \<open>text[i] = c\<close>, or \<open>-1\<close>.\<close>

definition rfind :: "'a list \<Rightarrow> 'a \<Rightarrow> nat \<Rightarrow> nat \<Rightarrow> int" where
  "rfind text c start stop =
     (case filter (\<lambda>i. text ! i = c) (rev [start ..< min stop (length text)]) of
        [] \<Rightarrow> - 1
      | i # _ \<Rightarrow> int i)"

text \<open>\<open>str(n)\<close> for a non-negative integer: its decimal digits.\<close>

fun str_of_nat :: "nat \<Rightarrow> ustring" where
  "str_of_nat n = (if n < 10 then [48 + n] else str_of_nat (n div 10) @ [48 + n mod 10])"

declare str_of_nat.simps [simp del]

text \<open>\<open>str.isspace\<close> on one character: the code points CPython classifies as whitespace.\<close>

definition isspace :: "nat \<Rightarrow> bool" where
  "isspace c \<longleftrightarrow>
     (0x09 \<le> c \<and> c \<le> 0x0D) \<or> (0x1C \<le> c \<and> c \<le> 0x20) \<or> c = 0x85 \<or> c = 0xA0 \<or>
     c = 0x1680 \<or> (0x2000 \<le> c \<and> c \<le> 0x200A) \<or> c = 0x2028 \<or> c = 0x2029 \<or>
     c = 0x202F \<or> c = 0x205F \<or> c = 0x3000"

text \<open>\<open>s.strip()\<close>: leading and trailing whitespace removed.\<close>

definition strip :: "ustring \<Rightarrow> ustring" where
  "strip s = rev (dropWhile isspace (rev (dropWhile isspace s)))"

text \<open>\<open>s.replace(old, new)\<close>: every non-overlapping occurrence of \<open>old\<close>, scanning from
  the left, is replaced by \<open>new\<close>. With an empty \<open>old\<close> Python puts \<open>new\<close> before every
  character and at the end.\<close>

fun replace_from :: "ustring \<Rightarrow> ustring \<Rightarrow> ustring \<Rightarrow> ustring" where
  "replace_from old new [] = []"
| "replace_from old new (c # cs) =
     (if prefix old (c # cs)
      then new @ replace_from old new (drop (length old - 1) cs)
      else c # replace_from old new cs)"

definition str_replace :: "ustring \<Rightarrow> ustring \<Rightarrow> ustring \<Rightarrow> ustring" where
  "str_replace old new s =
     (if old = [] then new @ concat (map (\<lambda>c. c # new) s) else replace_from old new s)"

text \<open>\<open>sep.join(xs)\<close>.\<close>

fun str_join :: "ustring \<Rightarrow> ustring list \<Rightarrow> ustring" where
  "str_join sep [] = []"
| "str_join sep [x] = x"
| "str_join sep (x # y # ys) = x @ sep @ str_join sep (y # ys)"

text \<open>Truth value of an optional string (\<open>None\<close> and the empty string are false) and
  Python's \<open>a or b\<close> on two of them.\<close>

definition truthy :: "ustring option \<Rightarrow> bool" where
  "truthy v = (case v of None \<Rightarrow> False | Some s \<Rightarrow> s \<noteq> [])"

definition py_or :: "ustring option \<Rightarrow> ustring option \<Rightarrow> ustring option" where
  "py_or a b = (if truthy a then a else b)"

section \<open>The chunking loop of \<open>send_long_message\<close>\<close>

text \<open>Line 69: \<open>limit = 3000\<close>. The loop below takes the limit as its parameter \<open>lim\<close>;
  \<open>send_long_message\<close> runs it at \<open>limit\<close>.\<close>

definition limit :: nat where
  "limit = 3000"

text \<open>
  Lines 77 to 82 of the source, one iteration's choice of \<open>split_pos\<close>:
  \<^verbatim>\<open>
    split_pos = text.rfind(FULLSTOP, current_pos, current_pos + limit)
    if split_pos == -1:
        split_pos = text.rfind("\n", current_pos, current_pos + limit)
    if split_pos == -1 or split_pos <= current_pos:
        split_pos = current_pos + limit
  \<close>
\<close>

definition split_point :: "nat \<Rightarrow> ustring \<Rightarrow> nat \<Rightarrow> int" where
  "split_point lim text current_pos =
     (let split_pos = rfind text FULLSTOP current_pos (current_pos + lim);
          split_pos = (if split_pos = - 1
                       then rfind text NEWLINE current_pos (current_pos + lim)
                       else split_pos)
      in if split_pos = - 1 \<or> split_pos \<le> int current_pos
         then int (current_pos + lim)
         else split_pos)"

text \<open>
  Lines 75 to 85, the \<open>while\<close> loop. Each iteration appends the slice
  \<open>text[current_pos:split_pos+1]\<close> and moves \<open>current_pos\<close> to \<open>split_pos + 1\<close>. The loop
  ends: \<open>split_pos\<close> is never below \<open>current_pos\<close>, so the distance to the end of the
  text shrinks with every iteration.
\<close>

function chunk_loop :: "nat \<Rightarrow> ustring \<Rightarrow> nat \<Rightarrow> ustring list \<Rightarrow> ustring list" where
  "chunk_loop lim text current_pos parts =
     (if current_pos < length text
      then chunk_loop lim text (nat (split_point lim text current_pos + 1))
             (parts @ [slice text current_pos (nat (split_point lim text current_pos + 1))])
      else parts)"
  by pat_completeness auto
termination
proof (relation "measure (\<lambda>(lim, text, current_pos, parts). length text - current_pos)")
  show "wf (measure (\<lambda>(lim, text, current_pos, parts). length text - current_pos))"
    by simp
next
  fix lim :: nat and t :: ustring and pos :: nat and ps :: "ustring list"
  assume "pos < length t"
  moreover have "int pos \<le> split_point lim t pos"
    unfolding split_point_def Let_def by auto
  ultimately show
    "((lim, t, nat (split_point lim t pos + 1),
       ps @ [slice t pos (nat (split_point lim t pos + 1))]),
      (lim, t, pos, ps))
     \<in> measure (\<lambda>(lim, text, current_pos, parts). length text - current_pos)"
    by simp
qed

declare chunk_loop.simps [simp del]

text \<open>The list \<open>parts\<close> as it stands when the loop is left (lines 73 to 85).\<close>

definition chunk_parts :: "ustring \<Rightarrow> ustring list" where
  "chunk_parts text = chunk_loop limit text 0 []"

text \<open>Line 88: the text posted for the part with index \<open>i\<close> (counted from 0) out of \<open>n\<close>:
  \<open>*{i+1}/{n}*\<close>, an empty line, then the part.\<close>

definition part_text :: "nat \<Rightarrow> nat \<Rightarrow> ustring \<Rightarrow> ustring" where
  "part_text i n part =
     asc ''*'' @ str_of_nat (i + 1) @ asc ''/'' @ str_of_nat n @ asc ''*'' @
     [NEWLINE, NEWLINE] @ part"

section \<open>Exceptions, the catalog and the fixed texts\<close>

text \<open>
  An exception caught by \<open>except Exception\<close> is modelled by its class, as far as the
  model raises it itself (\<open>KeyError\<close> for a missing dictionary key), and by the string
  \<open>str(e)\<close> that the handlers embed into their messages.
\<close>

datatype exn = KeyError ustring | Exception ustring

fun str_of_exn :: "exn \<Rightarrow> ustring" where
  "str_of_exn (KeyError k) = [0x27] @ k @ [0x27]"
| "str_of_exn (Exception msg) = msg"

record doc_info =
  keyword :: ustring
  filename :: ustring
  description :: ustring

text \<open>Lines 30 to 42: the catalog, in the order of the source.\<close>

definition DOCUMENTS_INFO :: "doc_info list" where
  "DOCUMENTS_INFO =
    [
     \<lparr>keyword =
          [0x30BC, 0x30DF],
      filename = asc ''zemi_unei.txt'',
      description =
          [0x7814, 0x7A76, 0x5BA4, 0x306E, 0x30BC, 0x30DF, 0x306E, 0x30EB, 0x30FC, 0x30EB,
          0x3001, 0x767A, 0x8868, 0x8005, 0x3084, 0x5EA7, 0x9577, 0x306E, 0x5F79, 0x5272,
          0x306B, 0x3064, 0x3044, 0x3066, 0x8AAC, 0x660E, 0x3057, 0x3066, 0x3044, 0x308B,
          0x8CC7, 0x6599, 0xFF0E]\<rparr>,
     \<lparr>keyword =
          [0x914D, 0x5C5E, 0x5F8C, 0x306E, 0x6D41, 0x308C],
      filename = asc ''haizoku_flow.txt'',
      description =
          [0x7814, 0x7A76, 0x5BA4, 0x306B, 0x65B0, 0x3057, 0x304F, 0x914D, 0x5C5E, 0x3055,
          0x308C, 0x305F, 0x5B66, 0x751F, 0x304C, 0x3001, 0x6700, 0x521D, 0x306B, 0x884C,
          0x3046, 0x3079, 0x304D, 0x624B, 0x7D9A, 0x304D, 0x3084, 0x6D3B, 0x52D5, 0x306E,
          0x6D41, 0x308C, 0x3092, 0x8AAC, 0x660E, 0x3057, 0x3066, 0x3044, 0x308B, 0x8CC7,
          0x6599, 0xFF0E]\<rparr>,
     \<lparr>keyword =
          [0x8AD6, 0x6587, 0x30C6, 0x30F3, 0x30D7, 0x30EC, 0x30FC, 0x30C8],
      filename = asc ''ronbun_template.txt'',
      description =
          [0x5352, 0x696D, 0x8AD6, 0x6587, 0x3084, 0x4FEE, 0x58EB, 0x8AD6, 0x6587, 0x3092,
          0x57F7, 0x7B46, 0x3059, 0x308B, 0x969B, 0x306E] @ asc ''Word'' @ [0x30C6, 0x30F3,
          0x30D7, 0x30EC, 0x30FC, 0x30C8, 0x306E, 0x4F7F, 0x3044, 0x65B9, 0x3084, 0x6CE8,
          0x610F, 0x70B9, 0x3092, 0x8AAC, 0x660E, 0x3057, 0x3066, 0x3044, 0x308B, 0x8CC7,
          0x6599, 0xFF0E]\<rparr>,
     \<lparr>keyword =
          [0x767A, 0x8868, 0x306E, 0x8CEA, 0x554F, 0x4F8B],
      filename = asc ''shitsumon_rei.txt'',
      description =
          [0x7814, 0x7A76, 0x767A, 0x8868, 0x306E, 0x8CEA, 0x7591, 0x5FDC, 0x7B54, 0x3067,
          0x3088, 0x304F, 0x805E, 0x304B, 0x308C, 0x308B, 0x8CEA, 0x554F, 0x306E, 0x4F8B,
          0x3092, 0x307E, 0x3068, 0x3081, 0x3066, 0x3044, 0x308B, 0x8CC7, 0x6599, 0xFF0E]\<rparr>,
     \<lparr>keyword =
          asc ''Python'' @ [0x6559, 0x6750],
      filename = asc ''kyouzai_python.txt'',
      description =
          [0x30D7, 0x30ED, 0x30B0, 0x30E9, 0x30DF, 0x30F3, 0x30B0, 0x8A00, 0x8A9E] @
          asc ''Python'' @ [0x306E, 0x57FA, 0x672C, 0x7684, 0x306A, 0x5B66, 0x7FD2, 0x6559,
          0x6750, 0x3084, 0x30B5, 0x30A4, 0x30C8, 0x306B, 0x3064, 0x3044, 0x3066, 0x7D39,
          0x4ECB, 0x3057, 0x3066, 0x3044, 0x308B, 0x8CC7, 0x6599, 0xFF0E]\<rparr>,
     \<lparr>keyword =
          asc ''Pytorch'' @ [0x6559, 0x6750],
      filename = asc ''kyouzai_pytorch.txt'',
      description =
          [0x6DF1, 0x5C64, 0x5B66, 0x7FD2, 0x30D5, 0x30EC, 0x30FC, 0x30E0, 0x30EF, 0x30FC,
          0x30AF] @ asc ''Pytorch'' @ [0x306E, 0x5B66, 0x7FD2, 0x6559, 0x6750, 0x306B,
          0x3064, 0x3044, 0x3066, 0x7D39, 0x4ECB, 0x3057, 0x3066, 0x3044, 0x308B, 0x8CC7,
          0x6599, 0xFF0E]\<rparr>,
     \<lparr>keyword =
          [0x6A5F, 0x68B0, 0x5B66, 0x7FD2, 0x6559, 0x6750],
      filename = asc ''kyouzai_machine_learning.txt'',
      description =
          [0x6A5F, 0x68B0, 0x5B66, 0x7FD2, 0x306E, 0x5168, 0x4F53, 0x7684, 0x306A, 0x5B66,
          0x7FD2, 0x6559, 0x6750, 0x3084, 0x30E9, 0x30A4, 0x30D6, 0x30E9, 0x30EA, 0x0028] @
          asc ''scikit'' @ [0x002D] @ asc ''learn'' @ [0x306A, 0x3069, 0x0029, 0x306B,
          0x3064, 0x3044, 0x3066, 0x7D39, 0x4ECB, 0x3057, 0x3066, 0x3044, 0x308B, 0x8CC7,
          0x6599, 0xFF0E]\<rparr>,
     \<lparr>keyword =
          [0x6DF1, 0x5C64, 0x5B66, 0x7FD2, 0x6559, 0x6750],
      filename = asc ''kyouzai_deep_learning.txt'',
      description =
          [0x30C7, 0x30A3, 0x30FC, 0x30D7, 0x30E9, 0x30FC, 0x30CB, 0x30F3, 0x30B0, 0xFF08,
          0x6DF1, 0x5C64, 0x5B66, 0x7FD2, 0xFF09, 0x306E, 0x6982, 0x5FF5, 0x3084, 0x7406,
          0x8AD6, 0x306B, 0x95A2, 0x3059, 0x308B, 0x5B66, 0x7FD2, 0x6559, 0x6750, 0x3092,
          0x7D39, 0x4ECB, 0x3057, 0x3066, 0x3044, 0x308B, 0x8CC7, 0x6599, 0xFF0E]\<rparr>,
     \<lparr>keyword =
          [0x7D71, 0x8A08, 0x5B66, 0x6559, 0x6750],
      filename = asc ''kyouzai_statistics.txt'',
      description =
          [0x7D71, 0x8A08, 0x5B66, 0x306E, 0x5B66, 0x7FD2, 0x6559, 0x6750, 0x3092, 0x7D39,
          0x4ECB, 0x3057, 0x3066, 0x3044, 0x308B, 0x8CC7, 0x6599, 0xFF0E]\<rparr>,
     \<lparr>keyword =
          [0x7DDA, 0x5F62, 0x4EE3, 0x6570, 0x6559, 0x6750],
      filename = asc ''kyouzai_linear_algebra.txt'',
      description =
          [0x7DDA, 0x5F62, 0x4EE3, 0x6570, 0x306E, 0x5B66, 0x7FD2, 0x6559, 0x6750, 0x3092,
          0x7D39, 0x4ECB, 0x3057, 0x3066, 0x3044, 0x308B, 0x8CC7, 0x6599, 0xFF0E]\<rparr>,
     \<lparr>keyword =
          [0x81EA, 0x5DF1, 0x7D39, 0x4ECB],
      filename = asc ''yourprofile.txt'',
      description =
          asc ''AI'' @ [0x30A2, 0x30B7, 0x30B9, 0x30BF, 0x30F3, 0x30C8, 0x81EA, 0x8EAB,
          0x306E, 0x5F79, 0x5272, 0x3084, 0x3001, 0x4F55, 0x304C, 0x3067, 0x304D, 0x308B,
          0x304B, 0x3068, 0x3044, 0x3063, 0x305F, 0x81EA, 0x5DF1, 0x7D39, 0x4ECB, 0xFF0E]\<rparr>
    ]"

text \<open>Line 52: the text returned when no model is configured.\<close>

definition no_api_key_text :: "ustring" where
  "no_api_key_text =
     asc ''Gemini'' @ [0x0020] @ asc ''API'' @ [0x30AD, 0x30FC, 0x304C, 0x8A2D, 0x5B9A,
     0x3055, 0x308C, 0x3066, 0x3044, 0x306A, 0x3044, 0x305F, 0x3081, 0x3001, 0x5FDC,
     0x7B54, 0x3067, 0x304D, 0x307E, 0x305B, 0x3093, 0xFF0E]"

text \<open>Line 65: the text returned when the generative call raises; \<open>{e}\<close> is \<open>str(e)\<close>.\<close>

definition gemini_error_text :: "exn \<Rightarrow> ustring" where
  "gemini_error_text e =
     [0x7533, 0x3057, 0x8A33, 0x3042, 0x308A, 0x307E, 0x305B, 0x3093, 0x3001] @ asc ''AI''
     @ [0x3068, 0x306E, 0x901A, 0x4FE1, 0x4E2D, 0x306B, 0x30A8, 0x30E9, 0x30FC, 0x304C,
     0x767A, 0x751F, 0x3057, 0x307E, 0x3057, 0x305F, 0xFF0E, 0x0028] @ str_of_exn e @
     [0x0029]"

text \<open>Line 135: the placeholder message.\<close>

definition thinking_text :: "ustring" where
  "thinking_text =
     [0x1F914, 0x0020, 0x3069, 0x306E, 0x8CC7, 0x6599, 0x3092, 0x8AAD, 0x3081, 0x3070,
     0x3044, 0x3044, 0x304B, 0x8003, 0x3048, 0x3066, 0x3044, 0x307E, 0x3059] @ asc ''...''"

text \<open>Line 139: one catalog entry as it is listed in the classification prompt.\<close>

definition topic_line :: "doc_info \<Rightarrow> ustring" where
  "topic_line doc =
     [0x002D, 0x0020, 0x30C8, 0x30D4, 0x30C3, 0x30AF, 0x540D, 0x003A, 0x0020] @ keyword doc
     @ [0x000A, 0x0020, 0x0020, 0x8AAC, 0x660E, 0x003A, 0x0020] @ description doc"

text \<open>Line 139: the catalog as it is listed in the classification prompt.\<close>

definition topic_descriptions :: ustring where
  "topic_descriptions = str_join [NEWLINE] (map topic_line DOCUMENTS_INFO)"

text \<open>Lines 140 to 147: the classification prompt.\<close>

definition classification_prompt :: "ustring \<Rightarrow> ustring" where
  "classification_prompt user_query =
     [0x3042, 0x306A, 0x305F, 0x306F, 0x30E6, 0x30FC, 0x30B6, 0x30FC, 0x306E, 0x8CEA,
     0x554F, 0x5185, 0x5BB9, 0x3092, 0x5206, 0x6790, 0x3057, 0x3001, 0x6700, 0x3082,
     0x95A2, 0x9023, 0x6027, 0x306E, 0x9AD8, 0x3044, 0x8CC7, 0x6599, 0x3092, 0x5224,
     0x65AD, 0x3059, 0x308B, 0x5C02, 0x9580, 0x5BB6, 0x3067, 0x3059, 0xFF0E, 0x000A,
     0x4EE5, 0x4E0B, 0x306E, 0x8CEA, 0x554F, 0x306B, 0x7B54, 0x3048, 0x308B, 0x306E,
     0x306B, 0x6700, 0x9069, 0x306A, 0x30C8, 0x30D4, 0x30C3, 0x30AF, 0x3092, 0x3001,
     0x4E0B, 0x8A18, 0x306E, 0x30C8, 0x30D4, 0x30C3, 0x30AF, 0x30EA, 0x30B9, 0x30C8,
     0x304B, 0x3089, 0x4E00, 0x3064, 0x3060, 0x3051, 0x9078, 0x3073, 0x3001, 0x305D,
     0x306E, 0x300C, 0x30C8, 0x30D4, 0x30C3, 0x30AF, 0x540D, 0x300D, 0x3060, 0x3051,
     0x3092, 0x7B54, 0x3048, 0x3066, 0x304F, 0x3060, 0x3055, 0x3044, 0xFF0E, 0x000A,
     0x3082, 0x3057, 0x3001, 0x3069, 0x306E, 0x30C8, 0x30D4, 0x30C3, 0x30AF, 0x306B,
     0x3082, 0x5F53, 0x3066, 0x306F, 0x307E, 0x3089, 0x306A, 0x3044, 0x4E00, 0x822C,
     0x77E5, 0x8B58, 0x306E, 0x8CEA, 0x554F, 0x306E, 0x5834, 0x5408, 0x306F, 0x3001,
     0x300C, 0x4E00, 0x822C, 0x77E5, 0x8B58, 0x300D, 0x3068, 0x7B54, 0x3048, 0x3066,
     0x304F, 0x3060, 0x3055, 0x3044, 0xFF0E, 0x000A, 0x000A, 0x0023, 0x0023, 0x0020,
     0x8CEA, 0x554F, 0x003A, 0x000A] @ user_query @ [0x000A, 0x000A, 0x0023, 0x0023,
     0x0020, 0x30C8, 0x30D4, 0x30C3, 0x30AF, 0x30EA, 0x30B9, 0x30C8, 0x003A, 0x000A] @
     topic_descriptions @ [0x000A, 0x000A, 0x0023, 0x0023, 0x0020, 0x56DE, 0x7B54, 0xFF08,
     0x30C8, 0x30D4, 0x30C3, 0x30AF, 0x540D, 0x4E00, 0x3064, 0x3060, 0x3051, 0xFF09,
     0xFF1A]"

text \<open>Line 159: the placeholder text naming the selected document.\<close>

definition reading_text :: "ustring \<Rightarrow> ustring" where
  "reading_text selected_file =
     [0x1F914, 0x0020, 0x0060] @ selected_file @ [0x0060, 0x0020, 0x3092, 0x8AAD, 0x3093,
     0x3067, 0x3044, 0x307E, 0x3059] @ asc ''...''"

text \<open>Lines 164 to 176: the grounded prompt.\<close>

definition final_query :: "ustring \<Rightarrow> ustring \<Rightarrow> ustring \<Rightarrow> ustring" where
  "final_query selected_file context_text user_query =
     [0x3042, 0x306A, 0x305F, 0x306F, 0x7814, 0x7A76, 0x5BA4, 0x306E, 0x512A, 0x79C0,
     0x3067, 0x89AA, 0x3057, 0x307F, 0x3084, 0x3059, 0x3044, 0x30A2, 0x30B7, 0x30B9,
     0x30BF, 0x30F3, 0x30C8, 0x3001, 0x304A, 0x304F, 0x3060, 0x304F, 0x3093, 0x3067,
     0x3059, 0xFF0E, 0x000A, 0x4EE5, 0x4E0B, 0x306E, 0x53C2, 0x8003, 0x60C5, 0x5831,
     0x306B, 0x53B3, 0x5BC6, 0x306B, 0x57FA, 0x3065, 0x3044, 0x3066, 0x3001, 0x4E01,
     0x5BE7, 0x3067, 0x5206, 0x304B, 0x308A, 0x3084, 0x3059, 0x3044, 0x8A00, 0x8449,
     0x3067, 0x56DE, 0x7B54, 0x3092, 0x751F, 0x6210, 0x3057, 0x3066, 0x304F, 0x3060,
     0x3055, 0x3044, 0xFF0E, 0x000A, 0x000A, 0x0023, 0x0020, 0x6307, 0x793A, 0x000A,
     0x002A, 0x0020, 0x7B87, 0x6761, 0x66F8, 0x304D, 0x3092, 0x4F7F, 0x3046, 0x5834,
     0x5408, 0x3067, 0x3082, 0x3001, 0x524D, 0x5F8C, 0x306B, 0x8AAC, 0x660E, 0x306E,
     0x6587, 0x7AE0, 0x3092, 0x52A0, 0x3048, 0x3066, 0x4F1A, 0x8A71, 0x306E, 0x3088,
     0x3046, 0x306A, 0x81EA, 0x7136, 0x306A, 0x6D41, 0x308C, 0x306B, 0x3057, 0x3066,
     0x304F, 0x3060, 0x3055, 0x3044, 0xFF0E, 0x000A, 0x002A, 0x0020, 0x76F8, 0x624B,
     0x306F, 0x5F8C, 0x8F29, 0x3084, 0x65B0, 0x5165, 0x751F, 0x3067, 0x3042, 0x308B,
     0x3053, 0x3068, 0x3092, 0x610F, 0x8B58, 0x3057, 0x3001, 0x89AA, 0x3057, 0x307F,
     0x3084, 0x3059, 0x3044, 0x53E3, 0x8ABF, 0x3092, 0x5FC3, 0x304C, 0x3051, 0x3066,
     0x304F, 0x3060, 0x3055, 0x3044, 0xFF0E, 0x000A, 0x002A, 0x0020, 0x53C2, 0x8003,
     0x60C5, 0x5831, 0x306B, 0x66F8, 0x304B, 0x308C, 0x3066, 0x3044, 0x306A, 0x3044,
     0x3053, 0x3068, 0x306F, 0x3001, 0x7D76, 0x5BFE, 0x306B, 0x7B54, 0x3048, 0x306A,
     0x3044, 0x3067, 0x304F, 0x3060, 0x3055, 0x3044, 0xFF0E, 0x000A, 0x000A, 0x0023,
     0x0020] @ asc ''Slack'' @ [0x7528, 0x306E, 0x66F8, 0x5F0F, 0x30EB, 0x30FC, 0x30EB,
     0x000A, 0x002A, 0x0020, 0x5F37, 0x8ABF, 0x3057, 0x305F, 0x3044, 0x5358, 0x8A9E,
     0x306F, 0x3001, 0x0060, 0x002A, 0x5358, 0x8A9E, 0x002A, 0x0060, 0x0020, 0x306E,
     0x3088, 0x3046, 0x306B, 0x30A2, 0x30B9, 0x30BF, 0x30EA, 0x30B9, 0x30AF, 0x3067,
     0x56F2, 0x3093, 0x3067, 0x304F, 0x3060, 0x3055, 0x3044, 0xFF0E, 0x000A, 0x002A,
     0x0020, 0x7B87, 0x6761, 0x66F8, 0x304D, 0x3092, 0x4F7F, 0x3046, 0x5834, 0x5408,
     0x306F, 0x3001, 0x884C, 0x982D, 0x306B, 0x0020, 0x0060, 0x2022, 0x0020, 0x0060,
     0x0020, 0x0028, 0x4E2D, 0x9ED2, 0x3068, 0x534A, 0x89D2, 0x30B9, 0x30DA, 0x30FC,
     0x30B9, 0x0029, 0x0020, 0x3092, 0x4F7F, 0x7528, 0x3057, 0x3066, 0x304F, 0x3060,
     0x3055, 0x3044, 0xFF0E, 0x000A, 0x002A, 0x0020, 0x0060, 0x002A, 0x002A, 0x5358,
     0x8A9E, 0x002A, 0x002A, 0x0060, 0x0020, 0x306E, 0x3088, 0x3046, 0x306A, 0x4E8C,
     0x91CD, 0x30A2, 0x30B9, 0x30BF, 0x30EA, 0x30B9, 0x30AF, 0x3084, 0x3001, 0x884C,
     0x982D, 0x306E, 0x0020, 0x0060, 0x002A, 0x0020, 0x0060, 0x0020, 0x306F, 0x4F7F,
     0x7528, 0x3057, 0x306A, 0x3044, 0x3067, 0x304F, 0x3060, 0x3055, 0x3044, 0xFF0E,
     0x000A, 0x000A, 0x0023, 0x0020, 0x53C2, 0x8003, 0x60C5, 0x5831, 0x0020, 0x0028,
     0x51FA, 0x5178, 0x003A, 0x0020] @ selected_file @ [0x0029, 0x000A] @ context_text @
     [0x000A, 0x000A, 0x0023, 0x0020, 0x8CEA, 0x554F, 0x000A] @ user_query"

text \<open>Line 185: the placeholder text of the general-knowledge branch.\<close>

definition no_document_text :: "ustring" where
  "no_document_text =
     [0x1F914, 0x0020, 0x3046, 0x30FC, 0x3093, 0x3001, 0x95A2, 0x9023, 0x3059, 0x308B,
     0x8CC7, 0x6599, 0x306F, 0x898B, 0x3064, 0x304B, 0x3089, 0x306A, 0x304B, 0x3063,
     0x305F, 0x3051, 0x3069, 0x3001, 0x50D5, 0x306E, 0x77E5, 0x8B58, 0x3067, 0x7B54,
     0x3048, 0x3066, 0x307F, 0x308B, 0x306D, 0xFF0E]"

text \<open>Lines 188 to 196: the general-knowledge prompt.\<close>

definition fallback_query :: "ustring \<Rightarrow> ustring" where
  "fallback_query user_query =
     [0x3042, 0x306A, 0x305F, 0x306F, 0x7814, 0x7A76, 0x5BA4, 0x306E, 0x512A, 0x79C0,
     0x3067, 0x89AA, 0x3057, 0x307F, 0x3084, 0x3059, 0x3044, 0x30A2, 0x30B7, 0x30B9,
     0x30BF, 0x30F3, 0x30C8, 0x3001, 0x304A, 0x304F, 0x3060, 0x304F, 0x3093, 0x3067,
     0x3059, 0xFF0E, 0x000A, 0x300C] @ user_query @ [0x300D, 0x3068, 0x3044, 0x3046,
     0x8CEA, 0x554F, 0x3092, 0x53D7, 0x3051, 0x307E, 0x3057, 0x305F, 0x304C, 0x3001,
     0x624B, 0x5143, 0x306B, 0x95A2, 0x9023, 0x3059, 0x308B, 0x8CC7, 0x6599, 0x304C,
     0x3042, 0x308A, 0x307E, 0x305B, 0x3093, 0x3067, 0x3057, 0x305F, 0xFF0E, 0x000A,
     0x3042, 0x306A, 0x305F, 0x306E, 0x6301, 0x3063, 0x3066, 0x3044, 0x308B, 0x4E00,
     0x822C, 0x7684, 0x306A, 0x77E5, 0x8B58, 0x3092, 0x6700, 0x5927, 0x9650, 0x306B,
     0x6D3B, 0x7528, 0x3057, 0x3001, 0x5F8C, 0x8F29, 0x306B, 0x6559, 0x3048, 0x308B,
     0x3088, 0x3046, 0x306A, 0x89AA, 0x3057, 0x307F, 0x3084, 0x3059, 0x304F, 0x4E01,
     0x5BE7, 0x306A, 0x53E3, 0x8ABF, 0x3067, 0x5FDC, 0x7B54, 0x3057, 0x3066, 0x304F,
     0x3060, 0x3055, 0x3044, 0xFF0E, 0x000A, 0x000A, 0x0023, 0x0020] @ asc ''Slack'' @
     [0x7528, 0x306E, 0x66F8, 0x5F0F, 0x30EB, 0x30FC, 0x30EB, 0x000A, 0x002A, 0x0020,
     0x5F37, 0x8ABF, 0x3057, 0x305F, 0x3044, 0x5358, 0x8A9E, 0x306F, 0x3001, 0x0060,
     0x002A, 0x5358, 0x8A9E, 0x002A, 0x0060, 0x0020, 0x306E, 0x3088, 0x3046, 0x306B,
     0x30A2, 0x30B9, 0x30BF, 0x30EA, 0x30B9, 0x30AF, 0x3067, 0x56F2, 0x3093, 0x3067,
     0x304F, 0x3060, 0x3055, 0x3044, 0xFF0E, 0x000A, 0x002A, 0x0020, 0x7B87, 0x6761,
     0x66F8, 0x304D, 0x3092, 0x4F7F, 0x3046, 0x5834, 0x5408, 0x306F, 0x3001, 0x884C,
     0x982D, 0x306B, 0x0020, 0x0060, 0x2022, 0x0020, 0x0060, 0x0020, 0x0028, 0x4E2D,
     0x9ED2, 0x3068, 0x534A, 0x89D2, 0x30B9, 0x30DA, 0x30FC, 0x30B9, 0x0029, 0x0020,
     0x3092, 0x4F7F, 0x7528, 0x3057, 0x3066, 0x304F, 0x3060, 0x3055, 0x3044, 0xFF0E,
     0x000A, 0x002A, 0x0020, 0x0060, 0x002A, 0x002A, 0x5358, 0x8A9E, 0x002A, 0x002A,
     0x0060, 0x0020, 0x306E, 0x3088, 0x3046, 0x306A, 0x4E8C, 0x91CD, 0x30A2, 0x30B9,
     0x30BF, 0x30EA, 0x30B9, 0x30AF, 0x3084, 0x3001, 0x884C, 0x982D, 0x306E, 0x0020,
     0x0060, 0x002A, 0x0020, 0x0060, 0x0020, 0x306F, 0x4F7F, 0x7528, 0x3057, 0x306A,
     0x3044, 0x3067, 0x304F, 0x3060, 0x3055, 0x3044, 0xFF0E]"

text \<open>Line 205: the text the outermost handler writes into the placeholder.\<close>

definition handler_error_text :: "exn \<Rightarrow> ustring" where
  "handler_error_text e =
     [0x7533, 0x3057, 0x8A33, 0x3042, 0x308A, 0x307E, 0x305B, 0x3093, 0xFF0E, 0x30A8,
     0x30E9, 0x30FC, 0x304C, 0x767A, 0x751F, 0x3057, 0x307E, 0x3057, 0x305F, 0x003A,
     0x0020] @ str_of_exn e"

section \<open>The outside world\<close>

text \<open>
  Every call that leaves the process is recorded, with its arguments, in the order it is
  made: \<open>say\<close> (a post into the event's channel), the three Slack client calls, the
  generative model and the read of a document file. Within one request every call is
  awaited before the next statement runs, so a request is a sequence of calls. Writing to
  the log (lines 64 and 203) is not a call to a collaborator and is not recorded.
\<close>

datatype call =
    Say ustring "ustring option"
  | ChatUpdate ustring ustring ustring
  | ChatDelete ustring ustring
  | ChatPostMessage ustring "ustring option" ustring
  | GenerateContent ustring
  | ReadText ustring

text \<open>
  The collaborators. Each call may raise (\<open>Inl\<close>) or return (\<open>Inr\<close>) and may change the
  world \<open>'w\<close>, about which nothing is assumed, so an answer may depend on everything
  that happened before. \<open>generative_model\<close> is \<open>None\<close> when the API key was missing at
  start-up (lines 21 to 26); its result stands for \<open>generate_content_async\<close> followed by
  \<open>.text\<close>, both inside the \<open>try\<close> of line 53. \<open>say\<close> returns the \<open>ts\<close> of the message
  it posted, the only field the handler reads from the response.
\<close>

record 'w env =
  generative_model :: "(ustring \<Rightarrow> 'w \<Rightarrow> (exn + ustring) \<times> 'w) option"
  say :: "ustring \<Rightarrow> ustring option \<Rightarrow> 'w \<Rightarrow> (exn + ustring) \<times> 'w"
  chat_update :: "ustring \<Rightarrow> ustring \<Rightarrow> ustring \<Rightarrow> 'w \<Rightarrow> (exn + unit) \<times> 'w"
  chat_delete :: "ustring \<Rightarrow> ustring \<Rightarrow> 'w \<Rightarrow> (exn + unit) \<times> 'w"
  chat_postMessage :: "ustring \<Rightarrow> ustring option \<Rightarrow> ustring \<Rightarrow> 'w \<Rightarrow> (exn + unit) \<times> 'w"
  read_text :: "ustring \<Rightarrow> 'w \<Rightarrow> (exn + ustring) \<times> 'w"

text \<open>The state threaded through a request: the world and the calls made so far.\<close>

type_synonym 'w st = "'w \<times> call list"

definition perform :: "call \<Rightarrow> ('w \<Rightarrow> (exn + 'a) \<times> 'w) \<Rightarrow> 'w st \<Rightarrow> (exn + 'a) \<times> 'w st" where
  "perform c f s = (case f (fst s) of (r, w') \<Rightarrow> (r, (w', snd s @ [c])))"

text \<open>Sequencing: an exception ends the sequence and is passed on.\<close>

definition and_then ::
  "('s \<Rightarrow> (exn + 'a) \<times> 's) \<Rightarrow> ('a \<Rightarrow> 's \<Rightarrow> (exn + 'b) \<times> 's) \<Rightarrow> 's \<Rightarrow> (exn + 'b) \<times> 's" where
  "and_then m k s = (case m s of (Inl e, s') \<Rightarrow> (Inl e, s') | (Inr a, s') \<Rightarrow> k a s')"

definition do_say :: "'w env \<Rightarrow> ustring \<Rightarrow> ustring option \<Rightarrow> 'w st \<Rightarrow> (exn + ustring) \<times> 'w st" where
  "do_say env txt thread_ts = perform (Say txt thread_ts) (say env txt thread_ts)"

definition do_chat_update ::
  "'w env \<Rightarrow> ustring \<Rightarrow> ustring \<Rightarrow> ustring \<Rightarrow> 'w st \<Rightarrow> (exn + unit) \<times> 'w st" where
  "do_chat_update env channel ts txt =
     perform (ChatUpdate channel ts txt) (chat_update env channel ts txt)"

definition do_chat_delete :: "'w env \<Rightarrow> ustring \<Rightarrow> ustring \<Rightarrow> 'w st \<Rightarrow> (exn + unit) \<times> 'w st" where
  "do_chat_delete env channel ts = perform (ChatDelete channel ts) (chat_delete env channel ts)"

definition do_chat_postMessage ::
  "'w env \<Rightarrow> ustring \<Rightarrow> ustring option \<Rightarrow> ustring \<Rightarrow> 'w st \<Rightarrow> (exn + unit) \<times> 'w st" where
  "do_chat_postMessage env channel thread_ts txt =
     perform (ChatPostMessage channel thread_ts txt) (chat_postMessage env channel thread_ts txt)"

definition do_read_text :: "'w env \<Rightarrow> ustring \<Rightarrow> 'w st \<Rightarrow> (exn + ustring) \<times> 'w st" where
  "do_read_text env file = perform (ReadText file) (read_text env file)"

section \<open>\<open>get_gemini_response\<close> (lines 49 to 65)\<close>

text \<open>
  The function is modelled with the result type of any call, \<open>exn + ustring\<close>, so that
  "it never raises" is a statement to prove and not a consequence of its type.
\<close>

definition get_gemini_response :: "'w env \<Rightarrow> ustring \<Rightarrow> 'w st \<Rightarrow> (exn + ustring) \<times> 'w st" where
  "get_gemini_response env prompt s =
     (case generative_model env of
        None \<Rightarrow> (Inr no_api_key_text, s)
      | Some model \<Rightarrow>
          (case perform (GenerateContent prompt) (model prompt) s of
             (Inr response_text, s') \<Rightarrow> (Inr response_text, s')
           | (Inl e, s') \<Rightarrow> (Inr (gemini_error_text e), s')))"

section \<open>\<open>send_long_message\<close> (lines 67 to 89)\<close>

text \<open>Lines 87 to 89: the parts are posted in order; \<open>n\<close> is \<open>len(parts)\<close> and \<open>i\<close> the
  index of the part at the head of the list. A post that raises ends the loop.\<close>

fun post_parts ::
  "'w env \<Rightarrow> ustring \<Rightarrow> ustring option \<Rightarrow> nat \<Rightarrow> nat \<Rightarrow> ustring list \<Rightarrow> 'w st \<Rightarrow> (exn + unit) \<times> 'w st" where
  "post_parts env channel thread_ts n i [] s = (Inr (), s)"
| "post_parts env channel thread_ts n i (part # rest) s =
     and_then (do_chat_postMessage env channel thread_ts (part_text i n part))
       (\<lambda>_. post_parts env channel thread_ts n (Suc i) rest) s"

definition send_long_message ::
  "'w env \<Rightarrow> ustring \<Rightarrow> ustring option \<Rightarrow> ustring \<Rightarrow> 'w st \<Rightarrow> (exn + unit) \<times> 'w st" where
  "send_long_message env channel thread_ts text s =
     (if length text \<le> limit
      then do_chat_postMessage env channel thread_ts text s
      else post_parts env channel thread_ts (length (chunk_parts text)) 0 (chunk_parts text) s)"

section \<open>\<open>handle_message\<close> (lines 111 to 206)\<close>

text \<open>
  The event is the dictionary Slack delivers. Fields read with \<open>event.get\<close> are optional;
  \<open>event['text']\<close> raises \<open>KeyError\<close> when the key is missing (message events of some
  subtypes carry no text); \<open>type\<close> and \<open>channel\<close> are present in every event the two
  registrations of lines 111 and 112 receive.
\<close>

record event =
  ev_bot_id :: "ustring option"
  ev_channel_type :: "ustring option"
  ev_type :: ustring
  ev_text :: "ustring option"
  ev_channel :: ustring
  ev_thread_ts :: "ustring option"
  ev_ts :: "ustring option"

record bolt_context =
  bot_user_id :: ustring

text \<open>Lines 124 to 127: the user's question, without the mention of the bot and trimmed.\<close>

definition user_query_of :: "event \<Rightarrow> bolt_context \<Rightarrow> ustring \<Rightarrow> ustring" where
  "user_query_of event ctx text =
     (if ev_type event = asc ''app_mention''
      then strip (str_replace (asc ''<@'' @ bot_user_id ctx @ asc ''>'') [] text)
      else strip text)"

text \<open>Line 150: the model's answer, trimmed, then without single quotes, double quotes,
  fullwidth full stops and asterisks.\<close>

definition normalize_topic :: "ustring \<Rightarrow> ustring" where
  "normalize_topic topic =
     str_replace (asc ''*'') []
       (str_replace [FULLSTOP] []
         (str_replace [0x22] []
           (str_replace [0x27] [] (strip topic))))"

text \<open>Line 152: the first catalog entry whose keyword is the normalized answer.\<close>

definition select_doc :: "ustring \<Rightarrow> doc_info option" where
  "select_doc topic = find (\<lambda>doc. keyword doc = topic) DOCUMENTS_INFO"

text \<open>Lines 157 to 180: a catalog entry was selected.\<close>

definition answer_from_document ::
  "'w env \<Rightarrow> ustring \<Rightarrow> ustring option \<Rightarrow> ustring \<Rightarrow> ustring \<Rightarrow> doc_info \<Rightarrow> 'w st
     \<Rightarrow> (exn + unit) \<times> 'w st" where
  "answer_from_document env channel_id thread_ts thinking_ts user_query selected_doc_info =
     (let selected_file = filename selected_doc_info in
      and_then (do_chat_update env channel_id thinking_ts (reading_text selected_file)) (\<lambda>_.
      and_then (do_read_text env selected_file) (\<lambda>context_text.
      and_then (get_gemini_response env (final_query selected_file context_text user_query))
        (\<lambda>reply_text.
      and_then (do_chat_delete env channel_id thinking_ts) (\<lambda>_.
      send_long_message env channel_id thread_ts reply_text)))))"

text \<open>Lines 184 to 200: no catalog entry was selected.\<close>

definition answer_from_knowledge ::
  "'w env \<Rightarrow> ustring \<Rightarrow> ustring \<Rightarrow> ustring \<Rightarrow> 'w st \<Rightarrow> (exn + unit) \<times> 'w st" where
  "answer_from_knowledge env channel_id thinking_ts user_query =
     and_then (do_chat_update env channel_id thinking_ts no_document_text) (\<lambda>_.
     and_then (get_gemini_response env (fallback_query user_query)) (\<lambda>reply_text.
     do_chat_update env channel_id thinking_ts reply_text))"

text \<open>Lines 138 to 200: the body of the \<open>try\<close>.\<close>

definition try_body ::
  "'w env \<Rightarrow> ustring \<Rightarrow> ustring option \<Rightarrow> ustring \<Rightarrow> ustring \<Rightarrow> 'w st \<Rightarrow> (exn + unit) \<times> 'w st" where
  "try_body env channel_id thread_ts thinking_ts user_query =
     and_then (get_gemini_response env (classification_prompt user_query)) (\<lambda>topic.
       case select_doc (normalize_topic topic) of
         Some selected_doc_info \<Rightarrow>
           answer_from_document env channel_id thread_ts thinking_ts user_query selected_doc_info
       | None \<Rightarrow> answer_from_knowledge env channel_id thinking_ts user_query)"

text \<open>
  The handler. It returns \<open>Inr ()\<close> when it returns normally and \<open>Inl e\<close> when an exception
  leaves it: from \<open>event['text']\<close> or \<open>say\<close>, which are outside the \<open>try\<close>, or from the
  \<open>chat_update\<close> of the \<open>except\<close> clause (lines 202 to 206).
\<close>

definition handle_message ::
  "'w env \<Rightarrow> event \<Rightarrow> bolt_context \<Rightarrow> 'w st \<Rightarrow> (exn + unit) \<times> 'w st" where
  "handle_message env event ctx s =
     (if ev_bot_id event \<noteq> None then (Inr (), s)
      else
        let channel_type = (case ev_channel_type event of None \<Rightarrow> [] | Some c \<Rightarrow> c) in
        if channel_type = asc ''im'' \<or> ev_type event = asc ''app_mention'' then
          (case ev_text event of
             None \<Rightarrow> (Inl (KeyError (asc ''text'')), s)
           | Some text \<Rightarrow>
               let user_query = user_query_of event ctx text in
               if user_query = [] then (Inr (), s)
               else
                 let channel_id = ev_channel event;
                     thread_ts = py_or (ev_thread_ts event) (ev_ts event)
                 in and_then (do_say env thinking_text thread_ts) (\<lambda>thinking_ts s1.
                      case try_body env channel_id thread_ts thinking_ts user_query s1 of
                        (Inl e, s2) \<Rightarrow>
                          do_chat_update env channel_id thinking_ts (handler_error_text e) s2
                      | (Inr u, s2) \<Rightarrow> (Inr u, s2)) s)
        else (Inr (), s))"

section \<open>Vocabulary of the claims\<close>

text \<open>A call that posts a message posts it into the thread \<open>th\<close>; calls that post
  nothing (updates, deletions, model calls, file reads) satisfy the predicate.\<close>

fun posts_into :: "ustring option \<Rightarrow> call \<Rightarrow> bool" where
  "posts_into th (Say _ t) = (t = th)"
| "posts_into th (ChatPostMessage _ t _) = (t = th)"
| "posts_into th _ = True"

text \<open>The state \<open>s'\<close> continues \<open>s\<close>: its calls are those of \<open>s\<close> followed by calls that
  all satisfy \<open>P\<close>.\<close>

definition extends_by :: "(call \<Rightarrow> bool) \<Rightarrow> 'w st \<Rightarrow> 'w st \<Rightarrow> bool" where
  "extends_by P s s' \<longleftrightarrow> prefix (snd s) (snd s') \<and> list_all P (drop (length (snd s)) (snd s'))"

section \<open>Sample inputs\<close>

text \<open>
  A world for running the handler on concrete inputs: the generative model answers from a
  script (the world is the list of answers still to give, and the model raises once the
  script is used up), every Slack call succeeds, \<open>say\<close> returns a fixed \<open>ts\<close>, and the
  document store is the function \<open>store\<close>.
\<close>

definition scripted_model ::
  "ustring \<Rightarrow> (exn + ustring) list \<Rightarrow> (exn + ustring) \<times> (exn + ustring) list" where
  "scripted_model prompt w =
     (case w of [] \<Rightarrow> (Inl (Exception (asc ''no answer'')), []) | r # rs \<Rightarrow> (r, rs))"

definition scripted_env :: "(ustring \<Rightarrow> exn + ustring) \<Rightarrow> ((exn + ustring) list) env" where
  "scripted_env store =
     \<lparr>generative_model = Some scripted_model,
      say = (\<lambda>txt thread_ts w. (Inr (asc ''171.5''), w)),
      chat_update = (\<lambda>channel ts txt w. (Inr (), w)),
      chat_delete = (\<lambda>channel ts w. (Inr (), w)),
      chat_postMessage = (\<lambda>channel thread_ts txt w. (Inr (), w)),
      read_text = (\<lambda>file w. (store file, w))\<rparr>"

text \<open>Two texts of length 3500 whose first full stop is at position 3100: one with no
  other full stop, one that also ends in a full stop.\<close>

definition three_part_text :: ustring where
  "three_part_text = replicate 3100 97 @ [FULLSTOP] @ replicate 399 97"

definition two_part_text :: ustring where
  "two_part_text = replicate 3100 97 @ [FULLSTOP] @ replicate 398 97 @ [FULLSTOP]"

text \<open>The first keyword of the catalog (katakana ZE, MI), the same in double quotes, a
  direct message without a thread, a mention inside a thread, and the bot's identity.\<close>

definition zemi :: ustring where
  "zemi = [0x30BC, 0x30DF]"

definition quoted_zemi :: ustring where
  "quoted_zemi = [0x22] @ zemi @ [0x22]"

definition dm_event :: event where
  "dm_event =
     \<lparr>ev_bot_id = None, ev_channel_type = Some (asc ''im''), ev_type = asc ''message'',
      ev_text = Some (asc ''  zemi?  ''), ev_channel = asc ''D1'',
      ev_thread_ts = None, ev_ts = Some (asc ''17.1'')\<rparr>"

definition mention_event :: event where
  "mention_event =
     \<lparr>ev_bot_id = None, ev_channel_type = Some (asc ''channel''), ev_type = asc ''app_mention'',
      ev_text = Some (asc ''<@U1> zemi?''), ev_channel = asc ''C1'',
      ev_thread_ts = Some (asc ''16.9''), ev_ts = Some (asc ''17.1'')\<rparr>"

definition bot_ctx :: bolt_context where
  "bot_ctx = \<lparr>bot_user_id = asc ''U1''\<rparr>"

section \<open>Facts about \<open>rfind\<close> and the chunking loop\<close>

lemma rfind_cases:
  "rfind text c start stop = - 1 \<or>
   (int start \<le> rfind text c start stop \<and> rfind text c start stop < int (min stop (length text)))"
proof (cases "filter (\<lambda>i. text ! i = c) (rev [start ..< min stop (length text)])")
  case Nil
  then show ?thesis by (simp add: rfind_def)
next
  case (Cons i rest)
  then have "i \<in> set (filter (\<lambda>i. text ! i = c) (rev [start ..< min stop (length text)]))"
    by simp
  then have "start \<le> i \<and> i < min stop (length text)"
    by auto
  with Cons show ?thesis by (simp add: rfind_def)
qed

lemma split_point_progress: "int current_pos \<le> split_point lim text current_pos"
  unfolding split_point_def Let_def by auto

lemma rfind_none:
  assumes "\<And>i. start \<le> i \<Longrightarrow> i < stop \<Longrightarrow> i < length text \<Longrightarrow> text ! i \<noteq> c"
  shows "rfind text c start stop = - 1"
proof -
  have "filter (\<lambda>i. text ! i = c) (rev [start ..< min stop (length text)]) = []"
    using assms by (auto simp: filter_empty_conv)
  then show ?thesis by (simp add: rfind_def)
qed

lemma rfind_found:
  assumes "rfind text c start stop \<noteq> - 1"
  shows "text ! nat (rfind text c start stop) = c"
proof (cases "filter (\<lambda>i. text ! i = c) (rev [start ..< min stop (length text)])")
  case Nil
  with assms show ?thesis by (simp add: rfind_def)
next
  case (Cons i rest)
  then have "i \<in> set (filter (\<lambda>i. text ! i = c) (rev [start ..< min stop (length text)]))"
    by simp
  then have "text ! i = c" by simp
  with Cons show ?thesis by (simp add: rfind_def)
qed

lemma rfind_exists:
  assumes "start \<le> p" "p < stop" "p < length text" "text ! p = c"
  shows "int p \<le> rfind text c start stop"
proof (cases "filter (\<lambda>i. text ! i = c) (rev [start ..< min stop (length text)])")
  case Nil
  moreover have "p \<in> set (filter (\<lambda>i. text ! i = c) (rev [start ..< min stop (length text)]))"
    using assms by simp
  ultimately show ?thesis by simp
next
  case (Cons i rest)
  have srt: "sorted_wrt (\<lambda>a b. a > b) (filter (\<lambda>i. text ! i = c) (rev [start ..< min stop (length text)]))"
    by (rule sorted_wrt_filter) (simp add: sorted_wrt_rev)
  have "p \<in> set (i # rest)"
    using assms Cons [symmetric] by simp
  then have "p \<le> i" using srt Cons by auto
  with Cons show ?thesis by (simp add: rfind_def)
qed

lemma rfind_last:
  assumes "start \<le> p" "p < stop" "p < length text" "text ! p = c"
    and "\<And>i. p < i \<Longrightarrow> i < stop \<Longrightarrow> i < length text \<Longrightarrow> text ! i \<noteq> c"
  shows "rfind text c start stop = int p"
proof -
  define r where "r = rfind text c start stop"
  have ge: "int p \<le> r"
    unfolding r_def using assms(1-4) by (rule rfind_exists)
  then have ne: "r \<noteq> - 1" by simp
  then have at: "text ! nat r = c"
    unfolding r_def by (rule rfind_found)
  have "r < int (min stop (length text))"
    using rfind_cases [of "text" c start stop] ne by (simp add: r_def)
  then have "nat r < stop" "nat r < length text"
    using ge by auto
  with at assms(5) [of "nat r"] have "\<not> p < nat r" by blast
  with ge show ?thesis by (simp add: r_def)
qed

lemma split_point_hard_cut:
  assumes "\<And>i. current_pos \<le> i \<Longrightarrow> i < current_pos + lim \<Longrightarrow> i < length text \<Longrightarrow>
             text ! i \<noteq> FULLSTOP \<and> text ! i \<noteq> NEWLINE"
  shows "split_point lim text current_pos = int (current_pos + lim)"
proof -
  have "rfind text FULLSTOP current_pos (current_pos + lim) = - 1"
    using assms by (intro rfind_none) simp
  moreover have "rfind text NEWLINE current_pos (current_pos + lim) = - 1"
    using assms by (intro rfind_none) simp
  ultimately show ?thesis
    by (simp add: split_point_def)
qed

lemma split_point_at_delimiter:
  assumes "rfind text FULLSTOP current_pos (current_pos + lim) = int p" "current_pos < p"
  shows "split_point lim text current_pos = int p"
  using assms by (simp add: split_point_def)

lemma chunk_loop_step:
  "current_pos < length text \<Longrightarrow>
   chunk_loop lim text current_pos parts =
   chunk_loop lim text (nat (split_point lim text current_pos + 1))
     (parts @ [slice text current_pos (nat (split_point lim text current_pos + 1))])"
  by (subst chunk_loop.simps) simp

lemma chunk_loop_done:
  "length text \<le> current_pos \<Longrightarrow> chunk_loop lim text current_pos parts = parts"
  by (subst chunk_loop.simps) simp

lemma chunk_loop_length_ge:
  "length parts \<le> length (chunk_loop lim text current_pos parts)"
proof (induction lim "text" current_pos parts rule: chunk_loop.induct)
  case (1 lim t pos ps)
  show ?case
  proof (cases "pos < length t")
    case True
    with "1.IH" show ?thesis
      by (simp add: chunk_loop_step)
  next
    case False
    then show ?thesis by (simp add: chunk_loop_done)
  qed
qed

lemma chunk_loop_length_gt:
  assumes "current_pos < length text"
  shows "length parts < length (chunk_loop lim text current_pos parts)"
proof -
  have "length (parts @ [slice text current_pos (nat (split_point lim text current_pos + 1))])
        \<le> length (chunk_loop lim text current_pos parts)"
    using chunk_loop_length_ge [of "parts @ [slice text current_pos (nat (split_point lim text current_pos + 1))]"
        lim "text" "nat (split_point lim text current_pos + 1)"]
    by (simp add: chunk_loop_step [OF assms])
  then show ?thesis by simp
qed

lemma scenario_c_first_cut:
  assumes "\<forall>i<3100. text ! i \<noteq> FULLSTOP" and "\<forall>i<3000. text ! i \<noteq> NEWLINE"
  shows "split_point limit text 0 = 3000"
proof -
  have "split_point limit text 0 = int (0 + limit)"
    using assms by (intro split_point_hard_cut) (simp add: limit_def)
  then show ?thesis by (simp add: limit_def)
qed

lemma scenario_c_second_cut:
  assumes len: "length text = 3500" and d: "text ! 3100 = FULLSTOP"
  shows "3100 \<le> split_point limit text 3001"
    and "split_point limit text 3001 < 3500"
    and "text ! nat (split_point limit text 3001) = FULLSTOP"
proof -
  define r where "r = rfind text FULLSTOP 3001 (3001 + limit)"
  have ge: "int 3100 \<le> r"
    unfolding r_def using len d by (intro rfind_exists) (simp_all add: limit_def)
  then have ne: "r \<noteq> - 1" by simp
  have sp: "split_point limit text 3001 = r"
    using ge by (simp add: split_point_def r_def [symmetric])
  show "3100 \<le> split_point limit text 3001"
    using ge sp by simp
  show "split_point limit text 3001 < 3500"
    using rfind_cases [of "text" FULLSTOP 3001 "3001 + limit"] ne len sp
    by (simp add: r_def limit_def)
  show "text ! nat (split_point limit text 3001) = FULLSTOP"
    using rfind_found [of "text" FULLSTOP 3001 "3001 + limit"] ne sp by (simp add: r_def)
qed

lemma scenario_c_parts:
  assumes len: "length text = 3500" and d: "text ! 3100 = FULLSTOP"
    and first: "\<forall>i<3100. text ! i \<noteq> FULLSTOP" and nl: "\<forall>i<3000. text ! i \<noteq> NEWLINE"
  shows "chunk_parts text =
         chunk_loop limit text (nat (split_point limit text 3001 + 1))
           [slice text 0 3001, slice text 3001 (nat (split_point limit text 3001 + 1))]"
proof -
  have nxt: "nat (split_point limit text 0 + 1) = 3001"
    using scenario_c_first_cut [OF first nl] by simp
  have "chunk_parts text = chunk_loop limit text 3001 ([] @ [slice text 0 3001])"
    unfolding chunk_parts_def by (subst chunk_loop_step) (simp_all add: nxt len)
  also have "\<dots> = chunk_loop limit text (nat (split_point limit text 3001 + 1))
     (([] @ [slice text 0 3001]) @ [slice text 3001 (nat (split_point limit text 3001 + 1))])"
    by (subst chunk_loop_step) (simp_all add: len)
  finally show ?thesis by simp
qed

lemma scenario_c_count:
  assumes len: "length text = 3500" and d: "text ! 3100 = FULLSTOP"
    and first: "\<forall>i<3100. text ! i \<noteq> FULLSTOP" and nl: "\<forall>i<3000. text ! i \<noteq> NEWLINE"
  shows "2 \<le> length (chunk_parts text)"
    and "length (chunk_parts text) = 2 \<longleftrightarrow> text ! 3499 = FULLSTOP"
proof -
  define q where "q = nat (split_point limit text 3001 + 1)"
  have parts: "chunk_parts text = chunk_loop limit text q [slice text 0 3001, slice text 3001 q]"
    unfolding q_def by (rule scenario_c_parts [OF assms])
  show "2 \<le> length (chunk_parts text)"
    using chunk_loop_length_ge [of "[slice text 0 3001, slice text 3001 q]" limit "text" q]
    by (simp add: parts)
  have q_bounds: "3101 \<le> q" "q \<le> 3500"
    using scenario_c_second_cut(1,2) [OF len d] by (simp_all add: q_def)
  have at: "text ! (q - 1) = FULLSTOP"
    using scenario_c_second_cut(1,3) [OF len d] by (simp add: q_def nat_add_distrib)
  show "length (chunk_parts text) = 2 \<longleftrightarrow> text ! 3499 = FULLSTOP"
  proof
    assume two: "length (chunk_parts text) = 2"
    have "\<not> q < length text"
    proof
      assume "q < length text"
      from chunk_loop_length_gt [OF this, of "[slice text 0 3001, slice text 3001 q]" limit]
      show False using two by (simp add: parts)
    qed
    then have "q = 3500" using q_bounds len by simp
    with at show "text ! 3499 = FULLSTOP" by simp
  next
    assume last: "text ! 3499 = FULLSTOP"
    have "rfind text FULLSTOP 3001 (3001 + limit) = int 3499"
      using len last by (intro rfind_last) (simp_all add: limit_def)
    then have "split_point limit text 3001 = int 3499"
      by (rule split_point_at_delimiter) simp
    then have "q = 3500" by (simp add: q_def)
    then show "length (chunk_parts text) = 2"
      by (simp add: parts chunk_loop_done len)
  qed
qed

lemma slice_then_rest:
  assumes "i \<le> j"
  shows "slice xs i j @ drop j xs = drop i xs"
proof -
  have "drop (j - i) (drop i xs) = drop j xs"
    using assms by simp
  then show ?thesis
    unfolding slice_def by (metis append_take_drop_id)
qed

lemma chunk_loop_concat:
  "concat (chunk_loop lim text current_pos parts) = concat parts @ drop current_pos text"
proof (induction lim "text" current_pos parts rule: chunk_loop.induct)
  case (1 lim t pos ps)
  show ?case
  proof (cases "pos < length t")
    case True
    define nxt where "nxt = nat (split_point lim t pos + 1)"
    have le: "pos \<le> nxt"
      using split_point_progress [of pos lim t] by (simp add: nxt_def)
    have "concat (chunk_loop lim t pos ps)
          = concat (chunk_loop lim t nxt (ps @ [slice t pos nxt]))"
      using True by (subst chunk_loop.simps) (simp add: nxt_def)
    also have "\<dots> = concat (ps @ [slice t pos nxt]) @ drop nxt t"
      using "1.IH" [OF True] by (simp add: nxt_def)
    also have "\<dots> = concat ps @ drop pos t"
      using slice_then_rest [OF le, of t] by simp
    finally show ?thesis .
  next
    case False
    then show ?thesis
      by (subst chunk_loop.simps) simp
  qed
qed

lemma not_in_take_nth:
  assumes "x \<notin> set (take n xs)" "i < n" "i < length xs"
  shows "xs ! i \<noteq> x"
proof
  assume "xs ! i = x"
  moreover have "take n xs ! i = xs ! i" using assms(2) by simp
  moreover have "i < length (take n xs)" using assms(2,3) by simp
  ultimately have "x \<in> set (take n xs)" by (metis nth_mem)
  with assms(1) show False by simp
qed

lemma not_in_take_all:
  assumes "x \<notin> set (take n xs)" "n \<le> length xs"
  shows "\<forall>i<n. xs ! i \<noteq> x"
proof (intro allI impI)
  fix i assume "i < n"
  with assms show "xs ! i \<noteq> x"
    by (intro not_in_take_nth [of x n xs i]) simp_all
qed

lemma hard_cut_3001: "chunk_parts (replicate 3001 97) = [replicate 3001 97]"
proof -
  let ?t = "replicate 3001 (97::nat)"
  have sp: "split_point limit ?t 0 = int (0 + limit)"
    by (rule split_point_hard_cut) (simp add: FULLSTOP_def NEWLINE_def)
  then have nxt: "nat (split_point limit ?t 0 + 1) = 3001"
    by (simp add: limit_def)
  have "chunk_loop limit ?t 0 [] = chunk_loop limit ?t 3001 ([] @ [slice ?t 0 3001])"
    by (subst chunk_loop_step) (simp_all add: nxt)
  also have "\<dots> = [slice ?t 0 3001]"
    by (simp add: chunk_loop_done)
  finally show ?thesis
    by (simp add: chunk_parts_def slice_def)
qed

lemma three_part_text_facts:
  "length three_part_text = 3500" "three_part_text ! 3100 = FULLSTOP"
  "FULLSTOP \<notin> set (take 3100 three_part_text)" "NEWLINE \<notin> set (take 3000 three_part_text)"
  "three_part_text ! 3499 = 97"
  by (simp_all add: three_part_text_def nth_append FULLSTOP_def NEWLINE_def)

lemma two_part_text_facts:
  "length two_part_text = 3500" "two_part_text ! 3100 = FULLSTOP"
  "FULLSTOP \<notin> set (take 3100 two_part_text)" "NEWLINE \<notin> set (take 3000 two_part_text)"
  "two_part_text ! 3499 = FULLSTOP" "last two_part_text = FULLSTOP"
  by (simp_all add: two_part_text_def nth_append FULLSTOP_def NEWLINE_def)

lemma three_part_text_third:
  assumes "3101 \<le> i" "i < length three_part_text"
  shows "three_part_text ! i = 97"
  using assms by (simp add: three_part_text_def nth_append)

lemma three_parts: "length (chunk_parts three_part_text) = 3"
proof -
  let ?t = three_part_text
  have first: "\<forall>i<3100. ?t ! i \<noteq> FULLSTOP"
    using three_part_text_facts(1,3) by (intro not_in_take_all) simp_all
  have nl: "\<forall>i<3000. ?t ! i \<noteq> NEWLINE"
    using three_part_text_facts(1,4) by (intro not_in_take_all) simp_all
  have "rfind ?t FULLSTOP 3001 (3001 + limit) = int 3100"
    using three_part_text_facts(1,2) three_part_text_third
    by (intro rfind_last) (simp_all add: limit_def FULLSTOP_def)
  then have sp: "split_point limit ?t 3001 = int 3100"
    by (rule split_point_at_delimiter) simp
  have parts: "chunk_parts ?t = chunk_loop limit ?t 3101 [slice ?t 0 3001, slice ?t 3001 3101]"
    using scenario_c_parts [OF three_part_text_facts(1,2) first nl] by (simp add: sp)
  have "split_point limit ?t 3101 = int (3101 + limit)"
    using three_part_text_third by (intro split_point_hard_cut) (simp add: FULLSTOP_def NEWLINE_def)
  then have nxt: "nat (split_point limit ?t 3101 + 1) = 6102"
    by (simp add: limit_def)
  have "chunk_loop limit ?t 3101 [slice ?t 0 3001, slice ?t 3001 3101]
        = chunk_loop limit ?t 6102 ([slice ?t 0 3001, slice ?t 3001 3101] @ [slice ?t 3101 6102])"
    by (subst chunk_loop_step) (simp_all add: nxt three_part_text_facts(1))
  also have "\<dots> = [slice ?t 0 3001, slice ?t 3001 3101, slice ?t 3101 6102]"
    by (simp add: chunk_loop_done three_part_text_facts(1))
  finally show ?thesis by (simp add: parts)
qed

section \<open>Facts about the calls\<close>

lemma perform_fst: "fst (perform c f s) = fst (f (fst s))"
  by (simp add: perform_def split: prod.splits)

lemma perform_trace: "snd (snd (perform c f s)) = snd s @ [c]"
  by (simp add: perform_def split: prod.splits)

lemma and_then_Inr:
  "fst (m s) = Inr a \<Longrightarrow> and_then m k s = k a (snd (m s))"
  by (cases "m s") (simp add: and_then_def)

lemma and_then_Inl:
  "fst (m s) = Inl e \<Longrightarrow> and_then m k s = (Inl e, snd (m s))"
  by (cases "m s") (simp add: and_then_def)

lemma post_parts_success:
  "fst (post_parts env ch th n i parts s) = Inr () \<Longrightarrow>
   snd (snd (post_parts env ch th n i parts s)) =
   snd s @ map (\<lambda>(j, p). ChatPostMessage ch th (part_text j n p)) (enumerate i parts)"
proof (induction parts arbitrary: i s)
  case Nil
  then show ?case by simp
next
  case (Cons p rest)
  let ?m = "do_chat_postMessage env ch th (part_text i n p)"
  show ?case
  proof (cases "fst (?m s)")
    case (Inl e)
    then have "fst (post_parts env ch th n i (p # rest) s) = Inl e"
      by (simp add: and_then_Inl)
    with Cons.prems show ?thesis by simp
  next
    case (Inr u)
    then have step: "post_parts env ch th n i (p # rest) s
                     = post_parts env ch th n (Suc i) rest (snd (?m s))"
      by (simp add: and_then_Inr)
    have tr: "snd (snd (?m s)) = snd s @ [ChatPostMessage ch th (part_text i n p)]"
      by (simp add: do_chat_postMessage_def perform_trace)
    from Cons.prems step have "fst (post_parts env ch th n (Suc i) rest (snd (?m s))) = Inr ()"
      by simp
    from Cons.IH [OF this] show ?thesis
      unfolding step by (simp add: tr)
  qed
qed

lemma send_long_message_success:
  assumes "limit < length text" "fst (send_long_message env ch th text s) = Inr ()"
  shows "snd (snd (send_long_message env ch th text s)) =
         snd s @ map (\<lambda>(j, p). ChatPostMessage ch th (part_text j (length (chunk_parts text)) p))
                   (enumerate 0 (chunk_parts text))"
  using assms by (simp add: send_long_message_def post_parts_success)

lemma part_text_headers:
  "part_text 0 2 p = asc ''*1/2*'' @ [NEWLINE, NEWLINE] @ p"
  "part_text (Suc 0) 2 p = asc ''*2/2*'' @ [NEWLINE, NEWLINE] @ p"
  by (simp_all add: part_text_def str_of_nat.simps asc_def)

lemma list_of_length_2: "length xs = 2 \<Longrightarrow> xs = [xs ! 0, xs ! 1]"
  by (cases xs; cases "tl xs") auto

lemma post_parts_scripted:
  "fst (post_parts (scripted_env store) ch th n i parts s) = Inr ()"
proof (induction parts arbitrary: i s)
  case Nil
  show ?case by simp
next
  case (Cons p rest)
  have "fst (do_chat_postMessage (scripted_env store) ch th (part_text i n p) s) = Inr ()"
    by (simp add: do_chat_postMessage_def perform_fst scripted_env_def)
  then show ?case
    using Cons.IH by (simp add: and_then_Inr)
qed

lemma perform_pair: "f w = (r, w') \<Longrightarrow> perform c f (w, tr) = (r, (w', tr @ [c]))"
  by (simp add: perform_def)

lemma get_gemini_response_pair:
  assumes "generative_model env = Some model" "model prompt w = (res, w')"
  shows "get_gemini_response env prompt (w, tr) =
         (Inr (case res of Inl e \<Rightarrow> gemini_error_text e | Inr t \<Rightarrow> t),
          (w', tr @ [GenerateContent prompt]))"
  using assms by (cases res) (simp_all add: get_gemini_response_def perform_pair)

lemma send_long_message_trace:
  assumes "fst (send_long_message env ch th reply s) = Inr ()"
  shows "snd (snd (send_long_message env ch th reply s)) =
         snd s @
         (if length reply \<le> limit then [ChatPostMessage ch th reply]
          else map (\<lambda>(j, p). ChatPostMessage ch th (part_text j (length (chunk_parts reply)) p))
                 (enumerate 0 (chunk_parts reply)))"
proof (cases "length reply \<le> limit")
  case True
  then show ?thesis
    by (simp add: send_long_message_def do_chat_postMessage_def perform_trace)
next
  case False
  then have "limit < length reply" by simp
  from send_long_message_success [OF this assms] False show ?thesis by simp
qed

lemma extends_by_refl: "extends_by P s s"
  by (simp add: extends_by_def)

lemma extends_by_trans:
  assumes "extends_by P s s'" "extends_by P s' s''"
  shows "extends_by P s s''"
proof -
  from assms(1) obtain a where a: "snd s' = snd s @ a" "list_all P a"
    by (auto simp: extends_by_def prefix_def)
  from assms(2) obtain b where b: "snd s'' = snd s' @ b" "list_all P b"
    by (auto simp: extends_by_def prefix_def)
  from a b show ?thesis
    by (simp add: extends_by_def)
qed

lemma extends_by_perform: "P c \<Longrightarrow> extends_by P s (snd (perform c f s))"
  by (simp add: extends_by_def perform_trace)

lemma extends_by_and_then:
  assumes "\<And>s. extends_by P s (snd (m s))" "\<And>a s. extends_by P s (snd (k a s))"
  shows "extends_by P s (snd (and_then m k s))"
proof -
  obtain r s' where Pair: "m s = (r, s')"
    by (metis surj_pair)
  then have m: "extends_by P s s'" using assms(1) [of s] by simp
  show ?thesis
  proof (cases r)
    case (Inl e)
    with Pair m show ?thesis by (simp add: and_then_def)
  next
    case (Inr a)
    with Pair have "and_then m k s = k a s'" by (simp add: and_then_def)
    with m assms(2) [of s' a] show ?thesis by (auto intro: extends_by_trans)
  qed
qed

lemma extends_by_get_gemini_response:
  "P (GenerateContent prompt) \<Longrightarrow> extends_by P s (snd (get_gemini_response env prompt s))"
proof (cases "generative_model env")
  case None
  then show ?thesis by (simp add: get_gemini_response_def extends_by_refl)
next
  case (Some model)
  assume P: "P (GenerateContent prompt)"
  have "snd (get_gemini_response env prompt s) = snd (perform (GenerateContent prompt) (model prompt) s)"
    using Some by (simp add: get_gemini_response_def split: prod.splits sum.splits)
  then show ?thesis using P by (simp add: extends_by_perform)
qed

lemma extends_by_post_parts:
  assumes "\<And>t. P (ChatPostMessage ch th t)"
  shows "extends_by P s (snd (post_parts env ch th n i parts s))"
proof (induction parts arbitrary: i s)
  case Nil
  show ?case by (simp add: extends_by_refl)
next
  case (Cons p rest)
  show ?case
    unfolding post_parts.simps
    by (rule extends_by_and_then) (simp_all add: do_chat_postMessage_def extends_by_perform assms Cons.IH)
qed

lemma extends_by_send_long_message:
  assumes "\<And>t. P (ChatPostMessage ch th t)"
  shows "extends_by P s (snd (send_long_message env ch th txt s))"
  by (simp add: send_long_message_def do_chat_postMessage_def extends_by_perform
      extends_by_post_parts assms)

section \<open>Facts about the handler\<close>

lemma classification_not_fallback: "classification_prompt q \<noteq> fallback_query q"
  by (simp add: classification_prompt_def fallback_query_def)

lemma handle_message_accepted:
  assumes "ev_bot_id event = None"
    and "ev_channel_type event = Some (asc ''im'') \<or> ev_type event = asc ''app_mention''"
    and "ev_text event = Some text" and "user_query_of event ctx text = q" and "q \<noteq> []"
    and "py_or (ev_thread_ts event) (ev_ts event) = th"
  shows "handle_message env event ctx s =
         and_then (do_say env thinking_text th) (\<lambda>thinking_ts s1.
           case try_body env (ev_channel event) th thinking_ts q s1 of
             (Inl e, s2) \<Rightarrow>
               do_chat_update env (ev_channel event) thinking_ts (handler_error_text e) s2
           | (Inr u, s2) \<Rightarrow> (Inr u, s2)) s"
  using assms by (auto simp add: handle_message_def Let_def)

lemma try_body_read_failure:
  assumes "generative_model env = Some model"
    and "model (classification_prompt q) w1 = (Inr raw, w2)"
    and "select_doc (normalize_topic raw) = Some doc"
    and "chat_update env ch ts (reading_text (filename doc)) w2 = (Inr (), w3)"
    and "read_text env (filename doc) w3 = (Inl e, w4)"
  shows "try_body env ch th ts q (w1, tr) =
         (Inl e, (w4, tr @ [GenerateContent (classification_prompt q),
                           ChatUpdate ch ts (reading_text (filename doc)),
                           ReadText (filename doc)]))"
  using assms
  by (simp add: try_body_def answer_from_document_def Let_def and_then_def
      get_gemini_response_pair do_chat_update_def do_read_text_def perform_pair)

lemma handle_message_read_failure:
  assumes "ev_bot_id event = None"
    and "ev_channel_type event = Some (asc ''im'') \<or> ev_type event = asc ''app_mention''"
    and "ev_text event = Some text" and "user_query_of event ctx text = q" and "q \<noteq> []"
    and "py_or (ev_thread_ts event) (ev_ts event) = th"
    and "say env thinking_text th w0 = (Inr ts, w1)"
    and "generative_model env = Some model"
    and "model (classification_prompt q) w1 = (Inr raw, w2)"
    and "select_doc (normalize_topic raw) = Some doc"
    and "chat_update env (ev_channel event) ts (reading_text (filename doc)) w2 = (Inr (), w3)"
    and "read_text env (filename doc) w3 = (Inl e, w4)"
    and "chat_update env (ev_channel event) ts (handler_error_text e) w4 = (r, w5)"
  shows "handle_message env event ctx (w0, []) =
         (r, (w5, [Say thinking_text th,
                   GenerateContent (classification_prompt q),
                   ChatUpdate (ev_channel event) ts (reading_text (filename doc)),
                   ReadText (filename doc),
                   ChatUpdate (ev_channel event) ts (handler_error_text e)]))"
proof -
  have say: "do_say env thinking_text th (w0, []) = (Inr ts, (w1, [Say thinking_text th]))"
    using assms(7) by (simp add: do_say_def perform_pair)
  have body: "try_body env (ev_channel event) th ts q (w1, [Say thinking_text th]) =
        (Inl e, (w4, [Say thinking_text th] @ [GenerateContent (classification_prompt q),
                           ChatUpdate (ev_channel event) ts (reading_text (filename doc)),
                           ReadText (filename doc)]))"
    by (rule try_body_read_failure [OF assms(8-12)])
  show ?thesis
    unfolding handle_message_accepted [OF assms(1-6)]
    using assms(13) by (simp add: and_then_def say body do_chat_update_def perform_def)
qed

lemma try_body_matched:
  assumes "generative_model env = Some model"
    and "model (classification_prompt q) w1 = (Inr raw, w2)"
    and "select_doc (normalize_topic raw) = Some doc"
    and "chat_update env ch ts (reading_text (filename doc)) w2 = (Inr (), w3)"
    and "read_text env (filename doc) w3 = (Inr context_text, w4)"
    and "model (final_query (filename doc) context_text q) w4 = (Inr reply, w5)"
    and "chat_delete env ch ts w5 = (Inr (), w6)"
  shows "try_body env ch th ts q (w1, tr) =
         send_long_message env ch th reply
           (w6, tr @ [GenerateContent (classification_prompt q),
                      ChatUpdate ch ts (reading_text (filename doc)),
                      ReadText (filename doc),
                      GenerateContent (final_query (filename doc) context_text q),
                      ChatDelete ch ts])"
  using assms
  by (simp add: try_body_def answer_from_document_def Let_def and_then_def
      get_gemini_response_pair do_chat_update_def do_read_text_def do_chat_delete_def perform_pair)

lemma try_body_fallback:
  assumes "generative_model env = Some model"
    and "model (classification_prompt q) w1 = (Inr raw, w2)"
    and "select_doc (normalize_topic raw) = None"
    and "chat_update env ch ts no_document_text w2 = (Inr (), w3)"
    and "model (fallback_query q) w3 = (Inr reply, w4)"
    and "chat_update env ch ts reply w4 = (Inr (), w5)"
  shows "try_body env ch th ts q (w1, tr) =
         (Inr (), (w5, tr @ [GenerateContent (classification_prompt q),
                            ChatUpdate ch ts no_document_text,
                            GenerateContent (fallback_query q),
                            ChatUpdate ch ts reply]))"
  using assms
  by (simp add: try_body_def answer_from_knowledge_def and_then_def
      get_gemini_response_pair do_chat_update_def perform_pair)

lemma handle_message_matched:
  assumes "ev_bot_id event = None"
    and "ev_channel_type event = Some (asc ''im'') \<or> ev_type event = asc ''app_mention''"
    and "ev_text event = Some msg" and "user_query_of event ctx msg = q" and "q \<noteq> []"
    and "py_or (ev_thread_ts event) (ev_ts event) = th"
    and "say env thinking_text th w0 = (Inr ts, w1)"
    and "generative_model env = Some model"
    and "model (classification_prompt q) w1 = (Inr raw, w2)"
    and "select_doc (normalize_topic raw) = Some doc"
    and "chat_update env (ev_channel event) ts (reading_text (filename doc)) w2 = (Inr (), w3)"
    and "read_text env (filename doc) w3 = (Inr context_text, w4)"
    and "model (final_query (filename doc) context_text q) w4 = (Inr reply, w5)"
    and "chat_delete env (ev_channel event) ts w5 = (Inr (), w6)"
    and "fst (send_long_message env (ev_channel event) th reply
           (w6, [Say thinking_text th,
                 GenerateContent (classification_prompt q),
                 ChatUpdate (ev_channel event) ts (reading_text (filename doc)),
                 ReadText (filename doc),
                 GenerateContent (final_query (filename doc) context_text q),
                 ChatDelete (ev_channel event) ts])) = Inr ()"
  shows "snd (snd (handle_message env event ctx (w0, []))) =
         [Say thinking_text th,
          GenerateContent (classification_prompt q),
          ChatUpdate (ev_channel event) ts (reading_text (filename doc)),
          ReadText (filename doc),
          GenerateContent (final_query (filename doc) context_text q),
          ChatDelete (ev_channel event) ts] @
         (if length reply \<le> limit then [ChatPostMessage (ev_channel event) th reply]
          else map (\<lambda>(j, p). ChatPostMessage (ev_channel event) th
                                (part_text j (length (chunk_parts reply)) p))
                 (enumerate 0 (chunk_parts reply)))"
proof -
  let ?tr = "[Say thinking_text th,
                 GenerateContent (classification_prompt q),
                 ChatUpdate (ev_channel event) ts (reading_text (filename doc)),
                 ReadText (filename doc),
                 GenerateContent (final_query (filename doc) context_text q),
                 ChatDelete (ev_channel event) ts]"
  let ?send = "send_long_message env (ev_channel event) th reply (w6, ?tr)"
  have say: "do_say env thinking_text th (w0, []) = (Inr ts, (w1, [Say thinking_text th]))"
    using assms(7) by (simp add: do_say_def perform_pair)
  have body: "try_body env (ev_channel event) th ts q (w1, [Say thinking_text th]) = ?send"
    using try_body_matched [OF assms(8-14), of th "[Say thinking_text th]"] by simp
  obtain u s2 where send: "?send = (Inr u, s2)"
    using assms(15) by (metis surj_pair fst_conv)
  have "handle_message env event ctx (w0, []) = ?send"
    unfolding handle_message_accepted [OF assms(1-6)]
    by (simp add: and_then_def say body send)
  then show ?thesis
    using send_long_message_trace [OF assms(15)] by simp
qed

lemma handle_message_fallback:
  assumes "ev_bot_id event = None"
    and "ev_channel_type event = Some (asc ''im'') \<or> ev_type event = asc ''app_mention''"
    and "ev_text event = Some msg" and "user_query_of event ctx msg = q" and "q \<noteq> []"
    and "py_or (ev_thread_ts event) (ev_ts event) = th"
    and "say env thinking_text th w0 = (Inr ts, w1)"
    and "generative_model env = Some model"
    and "model (classification_prompt q) w1 = (Inr raw, w2)"
    and "select_doc (normalize_topic raw) = None"
    and "chat_update env (ev_channel event) ts no_document_text w2 = (Inr (), w3)"
    and "model (fallback_query q) w3 = (Inr reply, w4)"
    and "chat_update env (ev_channel event) ts reply w4 = (Inr (), w5)"
  shows "handle_message env event ctx (w0, []) =
         (Inr (), (w5, [Say thinking_text th,
                        GenerateContent (classification_prompt q),
                        ChatUpdate (ev_channel event) ts no_document_text,
                        GenerateContent (fallback_query q),
                        ChatUpdate (ev_channel event) ts reply]))"
proof -
  have say: "do_say env thinking_text th (w0, []) = (Inr ts, (w1, [Say thinking_text th]))"
    using assms(7) by (simp add: do_say_def perform_pair)
  have body: "try_body env (ev_channel event) th ts q (w1, [Say thinking_text th]) =
         (Inr (), (w5, [Say thinking_text th] @ [GenerateContent (classification_prompt q),
                            ChatUpdate (ev_channel event) ts no_document_text,
                            GenerateContent (fallback_query q),
                            ChatUpdate (ev_channel event) ts reply]))"
    by (rule try_body_fallback [OF assms(8-13)])
  show ?thesis
    unfolding handle_message_accepted [OF assms(1-6)]
    by (simp add: and_then_def say body)
qed

lemma extends_by_answer_from_document:
  "extends_by (posts_into th) s (snd (answer_from_document env ch th ts q doc s))"
  unfolding answer_from_document_def Let_def
  by (intro extends_by_and_then extends_by_send_long_message extends_by_get_gemini_response)
     (simp_all add: do_chat_update_def do_read_text_def do_chat_delete_def extends_by_perform)

lemma extends_by_answer_from_knowledge:
  "extends_by (posts_into th) s (snd (answer_from_knowledge env ch ts q s))"
  unfolding answer_from_knowledge_def
  by (intro extends_by_and_then extends_by_get_gemini_response)
     (simp_all add: do_chat_update_def extends_by_perform)

lemma extends_by_try_body:
  "extends_by (posts_into th) s (snd (try_body env ch th ts q s))"
  unfolding try_body_def
  by (intro extends_by_and_then extends_by_get_gemini_response)
     (simp_all add: extends_by_answer_from_document extends_by_answer_from_knowledge
        split: option.splits)

lemma extends_by_guarded:
  "extends_by (posts_into th) s1
     (snd (case try_body env ch th ts q s1 of
             (Inl e, s2) \<Rightarrow> do_chat_update env ch ts (handler_error_text e) s2
           | (Inr u, s2) \<Rightarrow> (Inr u, s2)))"
proof -
  obtain r s2 where Pair: "try_body env ch th ts q s1 = (r, s2)"
    by (metis surj_pair)
  then have b: "extends_by (posts_into th) s1 s2"
    using extends_by_try_body [of th s1 env ch ts q] by simp
  show ?thesis
  proof (cases r)
    case (Inl e)
    have "extends_by (posts_into th) s2 (snd (do_chat_update env ch ts (handler_error_text e) s2))"
      by (simp add: do_chat_update_def extends_by_perform)
    with b Pair Inl show ?thesis by (auto intro: extends_by_trans)
  next
    case (Inr u)
    with b Pair show ?thesis by simp
  qed
qed

lemma handle_message_anchor:
  assumes "ev_bot_id event = None"
    and "ev_channel_type event = Some (asc ''im'') \<or> ev_type event = asc ''app_mention''"
    and "ev_text event = Some msg" and "user_query_of event ctx msg \<noteq> []"
    and "py_or (ev_thread_ts event) (ev_ts event) = th"
  shows "\<exists>rest. snd (snd (handle_message env event ctx (w, []))) = Say thinking_text th # rest \<and>
                list_all (posts_into th) rest"
proof -
  define k where "k = (\<lambda>thinking_ts s1.
           case try_body env (ev_channel event) th thinking_ts (user_query_of event ctx msg) s1 of
             (Inl e, s2) \<Rightarrow>
               do_chat_update env (ev_channel event) thinking_ts (handler_error_text e) s2
           | (Inr u, s2) \<Rightarrow> (Inr u, s2))"
  have hm: "handle_message env event ctx (w, []) = and_then (do_say env thinking_text th) k (w, [])"
    unfolding k_def by (rule handle_message_accepted [OF assms(1-3) refl assms(4,5)])
  obtain r w1 where say: "say env thinking_text th w = (r, w1)"
    by (cases "say env thinking_text th w")
  then have ds: "do_say env thinking_text th (w, []) = (r, (w1, [Say thinking_text th]))"
    by (simp add: do_say_def perform_def)
  show ?thesis
  proof (cases r)
    case (Inl e)
    with ds hm show ?thesis by (simp add: and_then_def)
  next
    case (Inr ts)
    with ds hm have eq: "handle_message env event ctx (w, []) = k ts (w1, [Say thinking_text th])"
      by (simp add: and_then_def)
    have "extends_by (posts_into th) (w1, [Say thinking_text th]) (snd (k ts (w1, [Say thinking_text th])))"
      unfolding k_def by (rule extends_by_guarded)
    then show ?thesis
      by (auto simp: eq extends_by_def prefix_def)
  qed
qed

lemma strip_padded:
  assumes "\<forall>c\<in>set pre. isspace c" "\<forall>c\<in>set post. isspace c"
    and "s \<noteq> []" "\<not> isspace (hd s)" "\<not> isspace (last s)"
  shows "strip (pre @ s @ post) = s"
proof -
  have front: "dropWhile isspace (pre @ s @ post) = s @ post"
    using assms(1,3,4) by (cases s) simp_all
  have "dropWhile isspace (rev post @ rev s) = dropWhile isspace (rev s)"
    by (rule dropWhile_append2) (use assms(2) in simp)
  then have "dropWhile isspace (rev (s @ post)) = dropWhile isspace (rev s)"
    by simp
  also have "\<dots> = rev s"
    using assms(3,5) by (cases "rev s") (simp_all add: last_rev [symmetric] hd_rev)
  finally show ?thesis
    by (simp add: strip_def front)
qed

lemma zemi_unchanged:
  "str_replace (asc ''*'') [] (str_replace [FULLSTOP] [] (str_replace [0x22] []
     (str_replace [0x27] [] zemi))) = zemi"
  by (simp add: str_replace_def zemi_def asc_def FULLSTOP_def)

section \<open>Facts about the sample inputs\<close>

lemma dm_event_facts:
  "ev_bot_id dm_event = None"
  "ev_channel_type dm_event = Some (asc ''im'') \<or> ev_type dm_event = asc ''app_mention''"
  "ev_text dm_event = Some (asc ''  zemi?  '')"
  "user_query_of dm_event bot_ctx (asc ''  zemi?  '') = asc ''zemi?''"
  "asc ''zemi?'' \<noteq> []"
  "py_or (ev_thread_ts dm_event) (ev_ts dm_event) = Some (asc ''17.1'')"
  "ev_channel dm_event = asc ''D1''"
  by (simp_all add: dm_event_def user_query_of_def asc_def strip_def isspace_def py_or_def truthy_def)

lemma mention_event_facts:
  "ev_bot_id mention_event = None"
  "ev_channel_type mention_event = Some (asc ''im'') \<or> ev_type mention_event = asc ''app_mention''"
  "ev_text mention_event = Some (asc ''<@U1> zemi?'')"
  "user_query_of mention_event bot_ctx (asc ''<@U1> zemi?'') = asc ''zemi?''"
  "py_or (ev_thread_ts mention_event) (ev_ts mention_event) = Some (asc ''16.9'')"
  "ev_channel mention_event = asc ''C1''"
  "ev_thread_ts mention_event = Some (asc ''16.9'')" "asc ''16.9'' \<noteq> []"
  by (simp_all add: mention_event_def bot_ctx_def user_query_of_def asc_def strip_def isspace_def
      str_replace_def py_or_def truthy_def)

lemma scripted_env_facts:
  "generative_model (scripted_env store) = Some scripted_model"
  "say (scripted_env store) txt th w = (Inr (asc ''171.5''), w)"
  "chat_update (scripted_env store) ch ts txt w = (Inr (), w)"
  "chat_delete (scripted_env store) ch ts w = (Inr (), w)"
  "chat_postMessage (scripted_env store) ch th txt w = (Inr (), w)"
  "read_text (scripted_env store) file w = (store file, w)"
  "scripted_model prompt (r # rs) = (r, rs)"
  "scripted_model prompt [] = (Inl (Exception (asc ''no answer'')), [])"
  by (simp_all add: scripted_env_def scripted_model_def)

lemma select_doc_samples:
  "select_doc (normalize_topic quoted_zemi) = Some (hd DOCUMENTS_INFO)"
  "filename (hd DOCUMENTS_INFO) = asc ''zemi_unei.txt''"
  "keyword (hd DOCUMENTS_INFO) = zemi"
  "select_doc (normalize_topic (asc ''unknown'')) = None"
  by (simp_all add: select_doc_def DOCUMENTS_INFO_def normalize_topic_def strip_def isspace_def
      str_replace_def zemi_def quoted_zemi_def asc_def FULLSTOP_def)

lemma send_long_message_scripted:
  "fst (send_long_message (scripted_env store) ch th reply s) = Inr ()"
  by (simp add: send_long_message_def post_parts_scripted do_chat_postMessage_def perform_fst
      scripted_env_facts)

section \<open>The claims about chunking\<close>

text \<open>
  Claim C1. For every text longer than the limit, the chunking loop terminates
  (\<open>chunk_loop\<close> is a total function, by the termination proof above) and the slices it
  collects, concatenated in order, are the original text: nothing is lost and nothing is
  duplicated at a part boundary.
\<close>

theorem chunk_parts_concat:
  "limit < length text \<Longrightarrow> concat (chunk_parts text) = text"
  by (simp add: chunk_parts_def chunk_loop_concat)

theorem chunk_parts_concat_witness:
  "limit < length (replicate 3001 (97::nat)) \<and>
   concat (chunk_parts (replicate 3001 97)) = replicate 3001 97"
  using chunk_parts_concat [of "replicate 3001 97"] by (simp add: limit_def)

text \<open>
  Claim C2, evaluated where the code departs from it. A text of 3001 letters "a" is longer
  than the limit and holds neither a full stop nor a newline. The loop ends after one
  iteration, but the single part it emits is the whole text, 3001 characters, one more
  than the limit: the hard cut sets \<open>split_pos = current_pos + limit\<close> and the slice
  \<open>text[current_pos:split_pos+1]\<close> includes the character at \<open>split_pos\<close>.
\<close>

theorem hard_cut_part_exceeds_limit:
  "FULLSTOP \<notin> set (replicate 3001 97) \<and> NEWLINE \<notin> set (replicate 3001 97) \<and>
   limit < length (replicate 3001 (97::nat)) \<and>
   chunk_parts (replicate 3001 97) = [replicate 3001 97] \<and>
   \<not> length (replicate 3001 (97::nat)) \<le> limit"
  by (simp add: hard_cut_3001 FULLSTOP_def NEWLINE_def limit_def)

text \<open>
  Claim C3, as stated, fails: a text of length 3500 with its only full stop at position 3100
  and no newline is cut into three parts, not two (the hard cut, then the cut at the full
  stop, then the rest).
\<close>

theorem scenario_c_three_parts:
  "length three_part_text = 3500 \<and> three_part_text ! 3100 = FULLSTOP \<and>
   FULLSTOP \<notin> set (take 3100 three_part_text) \<and>
   NEWLINE \<notin> set (take 3000 three_part_text) \<and>
   length (chunk_parts three_part_text) = 3"
  by (simp add: three_part_text_facts three_parts)

text \<open>
  Claim C3, amended. For a text of length 3500 whose first full stop is at position 3100
  and which has no newline among its first 3000 characters, the first iteration finds no
  split position and forces \<open>split_pos = 3000\<close>; the loop emits at least two parts, and
  exactly two if and only if the last character of the text is a full stop. In that case
  the two messages posted are the header \<open>*1/2*\<close>, an empty line and the first part, then
  the header \<open>*2/2*\<close>, an empty line and the second part.
\<close>

theorem scenario_c_delivery:
  assumes "length text = 3500" and "text ! 3100 = FULLSTOP"
    and "FULLSTOP \<notin> set (take 3100 text)" and "NEWLINE \<notin> set (take 3000 text)"
  shows "split_point limit text 0 = 3000 \<and>
         2 \<le> length (chunk_parts text) \<and>
         (length (chunk_parts text) = 2 \<longleftrightarrow> last text = FULLSTOP) \<and>
         (last text = FULLSTOP \<longrightarrow>
          fst (send_long_message env channel thread_ts text s) = Inr () \<longrightarrow>
          snd (snd (send_long_message env channel thread_ts text s)) =
            snd s @
            [ChatPostMessage channel thread_ts
               (asc ''*1/2*'' @ [NEWLINE, NEWLINE] @ chunk_parts text ! 0),
             ChatPostMessage channel thread_ts
               (asc ''*2/2*'' @ [NEWLINE, NEWLINE] @ chunk_parts text ! 1)])"
proof -
  have first: "\<forall>i<3100. text ! i \<noteq> FULLSTOP"
    using assms(1,3) by (intro not_in_take_all) simp_all
  have nl: "\<forall>i<3000. text ! i \<noteq> NEWLINE"
    using assms(1,4) by (intro not_in_take_all) simp_all
  have ne: "text \<noteq> []" using assms(1) by auto
  have last: "last text = text ! 3499"
    using assms(1) ne by (simp add: last_conv_nth)
  have a: "split_point limit text 0 = 3000"
    by (rule scenario_c_first_cut [OF first nl])
  have b: "2 \<le> length (chunk_parts text)"
    by (rule scenario_c_count(1) [OF assms(1,2) first nl])
  have c: "length (chunk_parts text) = 2 \<longleftrightarrow> last text = FULLSTOP"
    using scenario_c_count(2) [OF assms(1,2) first nl] by (simp add: last)
  have d: "snd (snd (send_long_message env channel thread_ts text s)) =
            snd s @
            [ChatPostMessage channel thread_ts
               (asc ''*1/2*'' @ [NEWLINE, NEWLINE] @ chunk_parts text ! 0),
             ChatPostMessage channel thread_ts
               (asc ''*2/2*'' @ [NEWLINE, NEWLINE] @ chunk_parts text ! 1)]"
    if l: "last text = FULLSTOP" and ok: "fst (send_long_message env channel thread_ts text s) = Inr ()"
  proof -
    have two: "length (chunk_parts text) = 2" using c l by simp
    then have parts: "chunk_parts text = [chunk_parts text ! 0, chunk_parts text ! 1]"
      by (rule list_of_length_2)
    have "limit < length text" using assms(1) by (simp add: limit_def)
    from send_long_message_success [OF this ok]
    have "snd (snd (send_long_message env channel thread_ts text s)) =
          snd s @ map (\<lambda>(j, p). ChatPostMessage channel thread_ts (part_text j 2 p))
                    (enumerate 0 [chunk_parts text ! 0, chunk_parts text ! 1])"
      using two parts by simp
    then show ?thesis
      by (simp add: part_text_headers)
  qed
  from a b c d show ?thesis by blast
qed

theorem scenario_c_delivery_witness:
  "length two_part_text = 3500 \<and> two_part_text ! 3100 = FULLSTOP \<and>
   FULLSTOP \<notin> set (take 3100 two_part_text) \<and> NEWLINE \<notin> set (take 3000 two_part_text) \<and>
   last two_part_text = FULLSTOP \<and>
   split_point limit two_part_text 0 = 3000 \<and> length (chunk_parts two_part_text) = 2 \<and>
   snd (snd (send_long_message (scripted_env (\<lambda>f. Inr [])) (asc ''C1'') (Some (asc ''17.1''))
               two_part_text ([], []))) =
     [ChatPostMessage (asc ''C1'') (Some (asc ''17.1''))
        (asc ''*1/2*'' @ [NEWLINE, NEWLINE] @ chunk_parts two_part_text ! 0),
      ChatPostMessage (asc ''C1'') (Some (asc ''17.1''))
        (asc ''*2/2*'' @ [NEWLINE, NEWLINE] @ chunk_parts two_part_text ! 1)]"
proof -
  have ok: "fst (send_long_message (scripted_env (\<lambda>f. Inr [])) (asc ''C1'') (Some (asc ''17.1''))
               two_part_text ([], [])) = Inr ()"
    using two_part_text_facts(1) by (simp add: send_long_message_def limit_def post_parts_scripted)
  show ?thesis
    using scenario_c_delivery [OF two_part_text_facts(1-4),
        of "scripted_env (\<lambda>f. Inr [])" "asc ''C1''" "Some (asc ''17.1'')" "([], [])"]
      ok two_part_text_facts
    by simp
qed

section \<open>The claims about delivery, classification and errors\<close>

text \<open>
  Claim C4, as stated, fails. A grounded answer of two characters fits in a single part,
  yet the placeholder is deleted and the answer is posted as a new message; and an answer
  of 3001 characters in the general-knowledge branch is written into the placeholder in
  place, with no deletion and no new post.
\<close>

theorem delivery_differs_by_branch_cex:
  "length (asc ''ok'') \<le> limit \<and>
   snd (snd (handle_message (scripted_env (\<lambda>f. Inr (asc ''rules''))) dm_event bot_ctx
               ([Inr quoted_zemi, Inr (asc ''ok'')], []))) =
     [Say thinking_text (Some (asc ''17.1'')),
      GenerateContent (classification_prompt (asc ''zemi?'')),
      ChatUpdate (asc ''D1'') (asc ''171.5'') (reading_text (asc ''zemi_unei.txt'')),
      ReadText (asc ''zemi_unei.txt''),
      GenerateContent (final_query (asc ''zemi_unei.txt'') (asc ''rules'') (asc ''zemi?'')),
      ChatDelete (asc ''D1'') (asc ''171.5''),
      ChatPostMessage (asc ''D1'') (Some (asc ''17.1'')) (asc ''ok'')] \<and>
   limit < length (replicate 3001 (97::nat)) \<and>
   snd (snd (handle_message (scripted_env (\<lambda>f. Inr (asc ''rules''))) dm_event bot_ctx
               ([Inr (asc ''unknown''), Inr (replicate 3001 97)], []))) =
     [Say thinking_text (Some (asc ''17.1'')),
      GenerateContent (classification_prompt (asc ''zemi?'')),
      ChatUpdate (asc ''D1'') (asc ''171.5'') no_document_text,
      GenerateContent (fallback_query (asc ''zemi?'')),
      ChatUpdate (asc ''D1'') (asc ''171.5'') (replicate 3001 97)]"
proof -
  let ?env = "scripted_env (\<lambda>f. Inr (asc ''rules''))"
  have short: "length (asc ''ok'') \<le> limit"
    by (simp add: asc_def limit_def)
  have "snd (snd (handle_message ?env dm_event bot_ctx
               ([Inr quoted_zemi, Inr (asc ''ok'')], []))) =
     [Say thinking_text (Some (asc ''17.1'')),
      GenerateContent (classification_prompt (asc ''zemi?'')),
      ChatUpdate (ev_channel dm_event) (asc ''171.5'') (reading_text (filename (hd DOCUMENTS_INFO))),
      ReadText (filename (hd DOCUMENTS_INFO)),
      GenerateContent (final_query (filename (hd DOCUMENTS_INFO)) (asc ''rules'') (asc ''zemi?'')),
      ChatDelete (ev_channel dm_event) (asc ''171.5'')] @
     (if length (asc ''ok'') \<le> limit
      then [ChatPostMessage (ev_channel dm_event) (Some (asc ''17.1'')) (asc ''ok'')]
      else map (\<lambda>(j, p). ChatPostMessage (ev_channel dm_event) (Some (asc ''17.1''))
                            (part_text j (length (chunk_parts (asc ''ok''))) p))
             (enumerate 0 (chunk_parts (asc ''ok''))))"
    by (rule handle_message_matched [OF dm_event_facts(1-6),
          where model = scripted_model and raw = "quoted_zemi"
            and ?w1.0 = "[Inr quoted_zemi, Inr (asc ''ok'')]"
            and ?w2.0 = "[Inr (asc ''ok'')]" and ?w3.0 = "[Inr (asc ''ok'')]"
            and ?w4.0 = "[Inr (asc ''ok'')]" and ?w5.0 = "[]" and ?w6.0 = "[]"])
       (simp_all add: scripted_env_facts select_doc_samples send_long_message_scripted)
  then have matched: "snd (snd (handle_message ?env dm_event bot_ctx
               ([Inr quoted_zemi, Inr (asc ''ok'')], []))) =
     [Say thinking_text (Some (asc ''17.1'')),
      GenerateContent (classification_prompt (asc ''zemi?'')),
      ChatUpdate (asc ''D1'') (asc ''171.5'') (reading_text (asc ''zemi_unei.txt'')),
      ReadText (asc ''zemi_unei.txt''),
      GenerateContent (final_query (asc ''zemi_unei.txt'') (asc ''rules'') (asc ''zemi?'')),
      ChatDelete (asc ''D1'') (asc ''171.5''),
      ChatPostMessage (asc ''D1'') (Some (asc ''17.1'')) (asc ''ok'')]"
    using short by (simp add: select_doc_samples dm_event_facts(7))
  have "handle_message ?env dm_event bot_ctx
               ([Inr (asc ''unknown''), Inr (replicate 3001 97)], []) =
     (Inr (), ([], [Say thinking_text (Some (asc ''17.1'')),
      GenerateContent (classification_prompt (asc ''zemi?'')),
      ChatUpdate (ev_channel dm_event) (asc ''171.5'') no_document_text,
      GenerateContent (fallback_query (asc ''zemi?'')),
      ChatUpdate (ev_channel dm_event) (asc ''171.5'') (replicate 3001 97)]))"
    by (rule handle_message_fallback [OF dm_event_facts(1-6),
          where model = scripted_model and raw = "asc ''unknown''"
            and ?w1.0 = "[Inr (asc ''unknown''), Inr (replicate 3001 97)]"
            and ?w2.0 = "[Inr (replicate 3001 97)]" and ?w3.0 = "[Inr (replicate 3001 97)]"
            and ?w4.0 = "[]"])
       (simp_all add: scripted_env_facts select_doc_samples)
  then have fallback: "snd (snd (handle_message ?env dm_event bot_ctx
               ([Inr (asc ''unknown''), Inr (replicate 3001 97)], []))) =
     [Say thinking_text (Some (asc ''17.1'')),
      GenerateContent (classification_prompt (asc ''zemi?'')),
      ChatUpdate (asc ''D1'') (asc ''171.5'') no_document_text,
      GenerateContent (fallback_query (asc ''zemi?'')),
      ChatUpdate (asc ''D1'') (asc ''171.5'') (replicate 3001 97)]"
    by (simp add: dm_event_facts(7))
  have long: "limit < length (replicate 3001 (97::nat))"
    by (simp add: limit_def)
  from short matched long fallback show ?thesis by blast
qed

text \<open>
  Claim C4, amended. When a catalog entry was selected, the placeholder is always deleted
  and the answer is handed to \<open>send_long_message\<close>, which posts it into the same thread:
  one message with the unchanged text when the answer has at most 3000 characters, the
  numbered parts in order otherwise. When no entry was selected, an answer of at most 3000
  characters is written into the placeholder in place: nothing is deleted and nothing
  new is posted.
\<close>

theorem delivery_by_branch:
  assumes "ev_bot_id event = None"
    and "ev_channel_type event = Some (asc ''im'') \<or> ev_type event = asc ''app_mention''"
    and "ev_text event = Some msg" and "user_query_of event ctx msg = q" and "q \<noteq> []"
    and "py_or (ev_thread_ts event) (ev_ts event) = th"
    and "say env thinking_text th w0 = (Inr ts, w1)"
    and "generative_model env = Some model"
    and "model (classification_prompt q) w1 = (Inr raw, w2)"
  shows
    "(select_doc (normalize_topic raw) = Some doc \<longrightarrow>
      chat_update env (ev_channel event) ts (reading_text (filename doc)) w2 = (Inr (), w3) \<longrightarrow>
      read_text env (filename doc) w3 = (Inr context_text, w4) \<longrightarrow>
      model (final_query (filename doc) context_text q) w4 = (Inr reply, w5) \<longrightarrow>
      chat_delete env (ev_channel event) ts w5 = (Inr (), w6) \<longrightarrow>
      fst (send_long_message env (ev_channel event) th reply
             (w6, [Say thinking_text th,
                   GenerateContent (classification_prompt q),
                   ChatUpdate (ev_channel event) ts (reading_text (filename doc)),
                   ReadText (filename doc),
                   GenerateContent (final_query (filename doc) context_text q),
                   ChatDelete (ev_channel event) ts])) = Inr () \<longrightarrow>
      snd (snd (handle_message env event ctx (w0, []))) =
        [Say thinking_text th,
         GenerateContent (classification_prompt q),
         ChatUpdate (ev_channel event) ts (reading_text (filename doc)),
         ReadText (filename doc),
         GenerateContent (final_query (filename doc) context_text q),
         ChatDelete (ev_channel event) ts] @
        (if length reply \<le> limit then [ChatPostMessage (ev_channel event) th reply]
         else map (\<lambda>(j, p). ChatPostMessage (ev_channel event) th
                               (part_text j (length (chunk_parts reply)) p))
                (enumerate 0 (chunk_parts reply)))) \<and>
     (select_doc (normalize_topic raw) = None \<longrightarrow>
      chat_update env (ev_channel event) ts no_document_text w2 = (Inr (), w3') \<longrightarrow>
      model (fallback_query q) w3' = (Inr reply', w4') \<longrightarrow>
      length reply' \<le> limit \<longrightarrow>
      chat_update env (ev_channel event) ts reply' w4' = (Inr (), w5') \<longrightarrow>
      handle_message env event ctx (w0, []) =
        (Inr (), (w5', [Say thinking_text th,
                        GenerateContent (classification_prompt q),
                        ChatUpdate (ev_channel event) ts no_document_text,
                        GenerateContent (fallback_query q),
                        ChatUpdate (ev_channel event) ts reply'])))"
  using handle_message_matched [OF assms] handle_message_fallback [OF assms]
  by blast

theorem delivery_by_branch_witness:
  "snd (snd (handle_message (scripted_env (\<lambda>f. Inr (asc ''rules''))) dm_event bot_ctx
               ([Inr quoted_zemi, Inr two_part_text], []))) =
     [Say thinking_text (Some (asc ''17.1'')),
      GenerateContent (classification_prompt (asc ''zemi?'')),
      ChatUpdate (asc ''D1'') (asc ''171.5'') (reading_text (asc ''zemi_unei.txt'')),
      ReadText (asc ''zemi_unei.txt''),
      GenerateContent (final_query (asc ''zemi_unei.txt'') (asc ''rules'') (asc ''zemi?'')),
      ChatDelete (asc ''D1'') (asc ''171.5'')] @
     map (\<lambda>(j, p). ChatPostMessage (asc ''D1'') (Some (asc ''17.1''))
                       (part_text j (length (chunk_parts two_part_text)) p))
       (enumerate 0 (chunk_parts two_part_text)) \<and>
   length (asc ''ok'') \<le> limit \<and>
   handle_message (scripted_env (\<lambda>f. Inr (asc ''rules''))) dm_event bot_ctx
     ([Inr (asc ''unknown''), Inr (asc ''ok'')], []) =
     (Inr (), ([], [Say thinking_text (Some (asc ''17.1'')),
                    GenerateContent (classification_prompt (asc ''zemi?'')),
                    ChatUpdate (asc ''D1'') (asc ''171.5'') no_document_text,
                    GenerateContent (fallback_query (asc ''zemi?'')),
                    ChatUpdate (asc ''D1'') (asc ''171.5'') (asc ''ok'')]))"
proof -
  let ?env = "scripted_env (\<lambda>f. Inr (asc ''rules''))"
  have long: "\<not> length two_part_text \<le> limit"
    by (simp add: two_part_text_facts(1) limit_def)
  have short: "length (asc ''ok'') \<le> limit"
    by (simp add: asc_def limit_def)
  have m: "snd (snd (handle_message ?env dm_event bot_ctx
               ([Inr quoted_zemi, Inr two_part_text], []))) =
     [Say thinking_text (Some (asc ''17.1'')),
      GenerateContent (classification_prompt (asc ''zemi?'')),
      ChatUpdate (asc ''D1'') (asc ''171.5'') (reading_text (asc ''zemi_unei.txt'')),
      ReadText (asc ''zemi_unei.txt''),
      GenerateContent (final_query (asc ''zemi_unei.txt'') (asc ''rules'') (asc ''zemi?'')),
      ChatDelete (asc ''D1'') (asc ''171.5'')] @
     map (\<lambda>(j, p). ChatPostMessage (asc ''D1'') (Some (asc ''17.1''))
                       (part_text j (length (chunk_parts two_part_text)) p))
       (enumerate 0 (chunk_parts two_part_text))"
    using delivery_by_branch [OF dm_event_facts(1-6),
          where env = "?env" and model = scripted_model and raw = quoted_zemi
            and ?w0.0 = "[Inr quoted_zemi, Inr two_part_text]"
            and ?w1.0 = "[Inr quoted_zemi, Inr two_part_text]"
            and ?w2.0 = "[Inr two_part_text]" and ?w3.0 = "[Inr two_part_text]"
            and ?w4.0 = "[Inr two_part_text]" and ?w5.0 = "[]" and ?w6.0 = "[]"
            and doc = "hd DOCUMENTS_INFO" and context_text = "asc ''rules''"
            and reply = two_part_text and ts = "asc ''171.5''"]
      long
    by (simp add: scripted_env_facts select_doc_samples send_long_message_scripted
        dm_event_facts(7))
  have f: "handle_message ?env dm_event bot_ctx
     ([Inr (asc ''unknown''), Inr (asc ''ok'')], []) =
     (Inr (), ([], [Say thinking_text (Some (asc ''17.1'')),
                    GenerateContent (classification_prompt (asc ''zemi?'')),
                    ChatUpdate (asc ''D1'') (asc ''171.5'') no_document_text,
                    GenerateContent (fallback_query (asc ''zemi?'')),
                    ChatUpdate (asc ''D1'') (asc ''171.5'') (asc ''ok'')]))"
    using delivery_by_branch [OF dm_event_facts(1-6),
          where env = "?env" and model = scripted_model and raw = "asc ''unknown''"
            and ?w0.0 = "[Inr (asc ''unknown''), Inr (asc ''ok'')]"
            and ?w1.0 = "[Inr (asc ''unknown''), Inr (asc ''ok'')]"
            and ?w2.0 = "[Inr (asc ''ok'')]" and ?w3'.0 = "[Inr (asc ''ok'')]"
            and ?w4'.0 = "[]" and ?w5'.0 = "[]" and reply' = "asc ''ok''"
            and ts = "asc ''171.5''"]
      short
    by (simp add: scripted_env_facts select_doc_samples dm_event_facts(7))
  from m short f show ?thesis by blast
qed

text \<open>
  Claim C5. Line 150 maps the answers \<open>"ZE MI"\<close> (in double quotes), \<open>'ZE MI'\<close> (in single
  quotes), \<open>*ZE MI*\<close>, \<open>ZE MI\<close> followed by a fullwidth full stop, and \<open>ZE MI\<close> with any
  whitespace before and after it, all to the two characters \<open>ZE MI\<close> (U+30BC U+30DF),
  and line 152 finds for that string the catalog entry with this keyword, the file
  \<open>zemi_unei.txt\<close>.
\<close>

theorem normalize_topic_zemi:
  "normalize_topic ([0x22] @ zemi @ [0x22]) = zemi \<and>
   normalize_topic ([0x27] @ zemi @ [0x27]) = zemi \<and>
   normalize_topic (asc ''*'' @ zemi @ asc ''*'') = zemi \<and>
   normalize_topic (zemi @ [FULLSTOP]) = zemi \<and>
   ((\<forall>c\<in>set pre. isspace c) \<longrightarrow> (\<forall>c\<in>set post. isspace c) \<longrightarrow>
      normalize_topic (pre @ zemi @ post) = zemi) \<and>
   map_option keyword (select_doc zemi) = Some zemi \<and>
   map_option filename (select_doc zemi) = Some (asc ''zemi_unei.txt'')"
proof -
  have ws: "normalize_topic (pre @ zemi @ post) = zemi"
    if "\<forall>c\<in>set pre. isspace c" "\<forall>c\<in>set post. isspace c"
  proof -
    have "strip (pre @ zemi @ post) = zemi"
      using that by (intro strip_padded) (simp_all add: zemi_def isspace_def)
    then show ?thesis
      by (simp add: normalize_topic_def zemi_unchanged)
  qed
  have fixed: "normalize_topic ([0x22] @ zemi @ [0x22]) = zemi"
    "normalize_topic ([0x27] @ zemi @ [0x27]) = zemi"
    "normalize_topic (asc ''*'' @ zemi @ asc ''*'') = zemi"
    "normalize_topic (zemi @ [FULLSTOP]) = zemi"
    by (simp_all add: normalize_topic_def strip_def isspace_def str_replace_def zemi_def asc_def
        FULLSTOP_def)
  have sel: "map_option keyword (select_doc zemi) = Some zemi"
    "map_option filename (select_doc zemi) = Some (asc ''zemi_unei.txt'')"
    by (simp_all add: select_doc_def DOCUMENTS_INFO_def zemi_def)
  from ws fixed sel show ?thesis by blast
qed

theorem normalize_topic_zemi_witness:
  "isspace 0x20 \<and> isspace 0x0A \<and> isspace 0x3000 \<and> isspace 0x09 \<and>
   normalize_topic ([0x20, 0x0A, 0x3000] @ zemi @ [0x09, 0x20]) = zemi \<and>
   normalize_topic ([0x22] @ zemi @ [0x22]) = zemi"
  using normalize_topic_zemi [of "[0x20, 0x0A, 0x3000]" "[0x09, 0x20]"]
  by (simp add: isspace_def)

text \<open>
  Claim C6. When the classification selects a catalog entry and reading its file raises,
  the request ends in the \<open>except\<close> clause: the last call writes into the placeholder
  the error text that ends with \<open>str(e)\<close>, and the model is called once only, for the
  classification, never with the general-knowledge prompt.
\<close>

theorem matched_read_failure_is_error:
  assumes "ev_bot_id event = None"
    and "ev_channel_type event = Some (asc ''im'') \<or> ev_type event = asc ''app_mention''"
    and "ev_text event = Some msg" and "user_query_of event ctx msg = q" and "q \<noteq> []"
    and "py_or (ev_thread_ts event) (ev_ts event) = th"
    and "say env thinking_text th w0 = (Inr ts, w1)"
    and "generative_model env = Some model"
    and "model (classification_prompt q) w1 = (Inr raw, w2)"
    and "select_doc (normalize_topic raw) = Some doc"
    and "chat_update env (ev_channel event) ts (reading_text (filename doc)) w2 = (Inr (), w3)"
    and "read_text env (filename doc) w3 = (Inl e, w4)"
    and "chat_update env (ev_channel event) ts (handler_error_text e) w4 = (r, w5)"
  shows "handle_message env event ctx (w0, []) =
         (r, (w5, [Say thinking_text th,
                   GenerateContent (classification_prompt q),
                   ChatUpdate (ev_channel event) ts (reading_text (filename doc)),
                   ReadText (filename doc),
                   ChatUpdate (ev_channel event) ts (handler_error_text e)])) \<and>
         suffix (str_of_exn e) (handler_error_text e) \<and>
         GenerateContent (fallback_query q)
           \<notin> set (snd (snd (handle_message env event ctx (w0, []))))"
proof -
  have "suffix (str_of_exn e) (handler_error_text e)"
    unfolding handler_error_text_def by (intro suffixI) (rule refl)
  then show ?thesis
    using classification_not_fallback [of q]
    by (simp add: handle_message_read_failure [OF assms] eq_commute)
qed

theorem matched_read_failure_is_error_witness:
  "handle_message (scripted_env (\<lambda>f. Inl (Exception (asc ''No such file'')))) dm_event bot_ctx
     ([Inr quoted_zemi], []) =
   (Inr (), ([], [Say thinking_text (Some (asc ''17.1'')),
                  GenerateContent (classification_prompt (asc ''zemi?'')),
                  ChatUpdate (asc ''D1'') (asc ''171.5'') (reading_text (asc ''zemi_unei.txt'')),
                  ReadText (asc ''zemi_unei.txt''),
                  ChatUpdate (asc ''D1'') (asc ''171.5'')
                    (handler_error_text (Exception (asc ''No such file'')))])) \<and>
   suffix (asc ''No such file'') (handler_error_text (Exception (asc ''No such file'')))"
  using matched_read_failure_is_error [OF dm_event_facts(1-6),
          where env = "scripted_env (\<lambda>f. Inl (Exception (asc ''No such file'')))"
            and model = scripted_model and raw = quoted_zemi
            and ?w0.0 = "[Inr quoted_zemi]" and ?w1.0 = "[Inr quoted_zemi]"
            and ?w2.0 = "[]" and ?w3.0 = "[]" and ?w4.0 = "[]" and ?w5.0 = "[]"
            and doc = "hd DOCUMENTS_INFO" and e = "Exception (asc ''No such file'')"
            and r = "Inr ()" and ts = "asc ''171.5''"]
  by (simp add: scripted_env_facts select_doc_samples dm_event_facts(7))

text \<open>
  Claim C7. \<open>get_gemini_response\<close> never raises: for every prompt, world and model it
  returns a text. When the model raises \<open>e\<close>, the text returned is the apology of line 65,
  which ends with \<open>str(e)\<close> and a closing parenthesis.
\<close>

theorem get_gemini_response_never_raises:
  "(\<exists>answer s'. get_gemini_response env prompt s = (Inr answer, s')) \<and>
   (generative_model env = Some model \<longrightarrow> model prompt (fst s) = (Inl e, w') \<longrightarrow>
      get_gemini_response env prompt s =
        (Inr (gemini_error_text e), (w', snd s @ [GenerateContent prompt])) \<and>
      suffix (str_of_exn e @ asc '')'') (gemini_error_text e))"
proof -
  have a: "\<exists>answer s'. get_gemini_response env prompt s = (Inr answer, s')"
    by (auto simp: get_gemini_response_def split: option.splits prod.splits sum.splits)
  have b: "get_gemini_response env prompt s =
        (Inr (gemini_error_text e), (w', snd s @ [GenerateContent prompt]))"
    if "generative_model env = Some model" "model prompt (fst s) = (Inl e, w')"
    using that by (simp add: get_gemini_response_def perform_def)
  have "asc '')'' = [0x29]"
    by (simp add: asc_def)
  then have c: "suffix (str_of_exn e @ asc '')'') (gemini_error_text e)"
    unfolding gemini_error_text_def suffix_def by (metis append.assoc)
  from a b c show ?thesis by blast
qed

theorem get_gemini_response_never_raises_witness:
  "get_gemini_response (scripted_env (\<lambda>f. Inr [])) (asc ''hello'') ([], []) =
     (Inr (gemini_error_text (Exception (asc ''no answer''))),
      ([], [GenerateContent (asc ''hello'')])) \<and>
   suffix (asc ''no answer'' @ asc '')'') (gemini_error_text (Exception (asc ''no answer'')))"
  using get_gemini_response_never_raises [of "scripted_env (\<lambda>f. Inr [])" "asc ''hello''"
      "([], [])" scripted_model "Exception (asc ''no answer'')" "[]"]
  by (simp add: scripted_env_facts)

text \<open>
  Claim C8. An event that carries a \<open>bot_id\<close> makes no call at all, whatever its other
  fields: the handler returns with the state unchanged.
\<close>

theorem bot_event_no_call:
  "ev_bot_id event \<noteq> None \<Longrightarrow> handle_message env event ctx s = (Inr (), s)"
  by (simp add: handle_message_def)

theorem bot_event_no_call_witness:
  "ev_bot_id (dm_event\<lparr>ev_bot_id := Some (asc ''B1'')\<rparr>) \<noteq> None \<and>
   handle_message (scripted_env (\<lambda>f. Inr [])) (dm_event\<lparr>ev_bot_id := Some (asc ''B1'')\<rparr>)
     bot_ctx ([Inr zemi], []) = (Inr (), ([Inr zemi], []))"
  using bot_event_no_call [of "dm_event\<lparr>ev_bot_id := Some (asc ''B1'')\<rparr>"
      "scripted_env (\<lambda>f. Inr [])" bot_ctx "([Inr zemi], [])"]
  by simp

text \<open>
  Claim C9. For an accepted event, direct message or mention, with a question that is not
  empty, the first call posts the placeholder into the thread of the event, and every
  message posted afterwards goes into the same thread: the event's \<open>thread_ts\<close> when it
  has one (a non-empty value), the event's own \<open>ts\<close> when it has none.
\<close>

theorem replies_anchored_to_thread:
  assumes "ev_bot_id event = None"
    and "ev_channel_type event = Some (asc ''im'') \<or> ev_type event = asc ''app_mention''"
    and "ev_text event = Some msg" and "user_query_of event ctx msg \<noteq> []"
  shows "(ev_thread_ts event = Some t \<longrightarrow> t \<noteq> [] \<longrightarrow>
            hd (snd (snd (handle_message env event ctx (w, [])))) = Say thinking_text (Some t) \<and>
            list_all (posts_into (Some t)) (snd (snd (handle_message env event ctx (w, []))))) \<and>
         (ev_thread_ts event = None \<longrightarrow>
            hd (snd (snd (handle_message env event ctx (w, [])))) = Say thinking_text (ev_ts event) \<and>
            list_all (posts_into (ev_ts event)) (snd (snd (handle_message env event ctx (w, []))))) \<and>
         snd (snd (handle_message env event ctx (w, []))) \<noteq> []"
proof -
  have anchored: "hd (snd (snd (handle_message env event ctx (w, [])))) = Say thinking_text th \<and>
      list_all (posts_into th) (snd (snd (handle_message env event ctx (w, [])))) \<and>
      snd (snd (handle_message env event ctx (w, []))) \<noteq> []"
    if "py_or (ev_thread_ts event) (ev_ts event) = th" for th
    using handle_message_anchor [OF assms that, of env w] by auto
  have "py_or (ev_thread_ts event) (ev_ts event) = Some t"
    if "ev_thread_ts event = Some t" "t \<noteq> []"
    using that by (simp add: py_or_def truthy_def)
  moreover have "py_or (ev_thread_ts event) (ev_ts event) = ev_ts event"
    if "ev_thread_ts event = None"
    using that by (simp add: py_or_def truthy_def)
  ultimately show ?thesis
    using anchored by blast
qed

theorem replies_anchored_to_thread_witness:
  "hd (snd (snd (handle_message (scripted_env (\<lambda>f. Inr (asc ''rules''))) mention_event bot_ctx
                   ([Inr quoted_zemi, Inr two_part_text], []))))
     = Say thinking_text (Some (asc ''16.9'')) \<and>
   list_all (posts_into (Some (asc ''16.9'')))
     (snd (snd (handle_message (scripted_env (\<lambda>f. Inr (asc ''rules''))) mention_event bot_ctx
                  ([Inr quoted_zemi, Inr two_part_text], [])))) \<and>
   hd (snd (snd (handle_message (scripted_env (\<lambda>f. Inr (asc ''rules''))) dm_event bot_ctx
                   ([Inr quoted_zemi, Inr two_part_text], []))))
     = Say thinking_text (Some (asc ''17.1'')) \<and>
   list_all (posts_into (Some (asc ''17.1'')))
     (snd (snd (handle_message (scripted_env (\<lambda>f. Inr (asc ''rules''))) dm_event bot_ctx
                  ([Inr quoted_zemi, Inr two_part_text], []))))"
proof -
  have m: "user_query_of mention_event bot_ctx (asc ''<@U1> zemi?'') \<noteq> []"
    unfolding mention_event_facts(4) by (simp add: asc_def)
  have d: "user_query_of dm_event bot_ctx (asc ''  zemi?  '') \<noteq> []"
    unfolding dm_event_facts(4) by (simp add: asc_def)
  show ?thesis
    using replies_anchored_to_thread [OF mention_event_facts(1-3) m,
        of "asc ''16.9''" "scripted_env (\<lambda>f. Inr (asc ''rules''))"
           "[Inr quoted_zemi, Inr two_part_text]"]
      replies_anchored_to_thread [OF dm_event_facts(1-3) d,
        of "[]" "scripted_env (\<lambda>f. Inr (asc ''rules''))"
           "[Inr quoted_zemi, Inr two_part_text]"]
    by (simp add: mention_event_facts(7,8) dm_event_def)
qed

text \<open>
  Claim C10, as stated, fails for a direct message. The mention of the bot is removed from
  the text of an \<open>app_mention\<close> event only (lines 124 to 127); a direct message that
  consists of the mention alone is empty once the mention is removed, yet its question
  is the mention itself, and the handler posts the placeholder and goes on.
\<close>

theorem mention_only_direct_message_is_answered:
  "ev_bot_id (dm_event\<lparr>ev_text := Some (asc ''<@U1>'')\<rparr>) = None \<and>
   ev_channel_type (dm_event\<lparr>ev_text := Some (asc ''<@U1>'')\<rparr>) = Some (asc ''im'') \<and>
   ev_text (dm_event\<lparr>ev_text := Some (asc ''<@U1>'')\<rparr>) = Some (asc ''<@U1>'') \<and>
   strip (str_replace (asc ''<@'' @ bot_user_id bot_ctx @ asc ''>'') [] (asc ''<@U1>'')) = [] \<and>
   snd (snd (handle_message (scripted_env (\<lambda>f. Inr [])) (dm_event\<lparr>ev_text := Some (asc ''<@U1>'')\<rparr>)
               bot_ctx ([Inr (asc ''unknown''), Inr (asc ''ok'')], []))) =
     [Say thinking_text (Some (asc ''17.1'')),
      GenerateContent (classification_prompt (asc ''<@U1>'')),
      ChatUpdate (asc ''D1'') (asc ''171.5'') no_document_text,
      GenerateContent (fallback_query (asc ''<@U1>'')),
      ChatUpdate (asc ''D1'') (asc ''171.5'') (asc ''ok'')]"
proof -
  let ?ev = "dm_event\<lparr>ev_text := Some (asc ''<@U1>'')\<rparr>"
  have ev: "ev_bot_id ?ev = None"
    "ev_channel_type ?ev = Some (asc ''im'') \<or> ev_type ?ev = asc ''app_mention''"
    "ev_text ?ev = Some (asc ''<@U1>'')"
    "user_query_of ?ev bot_ctx (asc ''<@U1>'') = asc ''<@U1>''"
    "asc ''<@U1>'' \<noteq> []"
    "py_or (ev_thread_ts ?ev) (ev_ts ?ev) = Some (asc ''17.1'')"
    by (simp_all add: dm_event_def user_query_of_def asc_def strip_def isspace_def py_or_def
        truthy_def)
  have empty: "strip (str_replace (asc ''<@'' @ bot_user_id bot_ctx @ asc ''>'') [] (asc ''<@U1>'')) = []"
    by (simp add: bot_ctx_def asc_def strip_def str_replace_def)
  have "handle_message (scripted_env (\<lambda>f. Inr [])) ?ev bot_ctx
          ([Inr (asc ''unknown''), Inr (asc ''ok'')], []) =
     (Inr (), ([], [Say thinking_text (Some (asc ''17.1'')),
      GenerateContent (classification_prompt (asc ''<@U1>'')),
      ChatUpdate (ev_channel ?ev) (asc ''171.5'') no_document_text,
      GenerateContent (fallback_query (asc ''<@U1>'')),
      ChatUpdate (ev_channel ?ev) (asc ''171.5'') (asc ''ok'')]))"
    by (rule handle_message_fallback [OF ev,
          where model = scripted_model and raw = "asc ''unknown''"
            and ?w1.0 = "[Inr (asc ''unknown''), Inr (asc ''ok'')]"
            and ?w2.0 = "[Inr (asc ''ok'')]" and ?w3.0 = "[Inr (asc ''ok'')]"
            and ?w4.0 = "[]"])
       (simp_all add: scripted_env_facts select_doc_samples)
  then have "snd (snd (handle_message (scripted_env (\<lambda>f. Inr [])) ?ev bot_ctx
               ([Inr (asc ''unknown''), Inr (asc ''ok'')], []))) =
     [Say thinking_text (Some (asc ''17.1'')),
      GenerateContent (classification_prompt (asc ''<@U1>'')),
      ChatUpdate (asc ''D1'') (asc ''171.5'') no_document_text,
      GenerateContent (fallback_query (asc ''<@U1>'')),
      ChatUpdate (asc ''D1'') (asc ''171.5'') (asc ''ok'')]"
    by (simp add: dm_event_def)
  with ev(1,3) empty show ?thesis
    by (simp add: dm_event_def)
qed

text \<open>
  Claim C10, amended. When the question the handler extracts is empty (for a mention
  event the text without the mention of the bot, trimmed; for a direct message the text,
  trimmed, a mention in it being kept), the handler returns without a single call: no
  placeholder, no call of the model, no reply.
\<close>

theorem empty_query_no_call:
  "ev_text event = Some text \<Longrightarrow> user_query_of event ctx text = [] \<Longrightarrow>
   handle_message env event ctx s = (Inr (), s)"
  by (simp add: handle_message_def Let_def)

theorem empty_query_no_call_witness:
  "ev_text (mention_event\<lparr>ev_text := Some (asc ''<@U1>  '')\<rparr>) = Some (asc ''<@U1>  '') \<and>
   user_query_of (mention_event\<lparr>ev_text := Some (asc ''<@U1>  '')\<rparr>) bot_ctx (asc ''<@U1>  '') = [] \<and>
   handle_message (scripted_env (\<lambda>f. Inr [])) (mention_event\<lparr>ev_text := Some (asc ''<@U1>  '')\<rparr>)
     bot_ctx ([Inr zemi], []) = (Inr (), ([Inr zemi], []))"
proof -
  have q: "user_query_of (mention_event\<lparr>ev_text := Some (asc ''<@U1>  '')\<rparr>) bot_ctx
             (asc ''<@U1>  '') = []"
    by (simp add: user_query_of_def mention_event_def bot_ctx_def asc_def strip_def isspace_def
        str_replace_def)
  show ?thesis
    using empty_query_no_call [of "mention_event\<lparr>ev_text := Some (asc ''<@U1>  '')\<rparr>"
        "asc ''<@U1>  ''" bot_ctx "scripted_env (\<lambda>f. Inr [])" "([Inr zemi], [])"] q
    by simp
qed

end
